theory Spec2Isabelle
  imports Complex_Main "HOL-Library.Sublist"
begin

section \<open>Python strings\<close>

text \<open>
  A Python \<open>str\<close> is modelled as a HOL \<open>string\<close>; a \<open>char\<close> stands for a code point
  below 256. \<open>is_space\<close> is the set of code points that \<open>str.strip\<close> removes in that
  range, \<open>is_upper\<close> the code points that \<open>str.lower\<close> changes there (it adds 32, which
  sets bit 5).
\<close>

definition is_space :: "char \<Rightarrow> bool" where
  "is_space c =
     (let n = (of_char c :: nat)
      in (9 \<le> n \<and> n \<le> 13) \<or> (28 \<le> n \<and> n \<le> 32) \<or> n = 133 \<or> n = 160)"

definition is_upper :: "char \<Rightarrow> bool" where
  "is_upper c =
     (let n = (of_char c :: nat)
      in (65 \<le> n \<and> n \<le> 90) \<or> (192 \<le> n \<and> n \<le> 222 \<and> n \<noteq> 215))"

definition lower_char :: "char \<Rightarrow> char" where
  "lower_char c =
     (if is_upper c
      then Char (digit0 c) (digit1 c) (digit2 c) (digit3 c) (digit4 c) True (digit6 c) (digit7 c)
      else c)"

definition lower :: "string \<Rightarrow> string" where
  "lower s = map lower_char s"

definition lstrip :: "string \<Rightarrow> string" where
  "lstrip s = dropWhile is_space s"

definition rstrip :: "string \<Rightarrow> string" where
  "rstrip s = rev (dropWhile is_space (rev s))"

definition strip :: "string \<Rightarrow> string" where
  "strip s = rstrip (lstrip s)"

definition startswith :: "string \<Rightarrow> string \<Rightarrow> bool" where
  "startswith s p = prefix p s"

definition endswith :: "string \<Rightarrow> string \<Rightarrow> bool" where
  "endswith s p = suffix p s"

text \<open>The slice \<open>txt[1:-1]\<close>: empty for a text of fewer than three characters.\<close>

definition slice_1_m1 :: "string \<Rightarrow> string" where
  "slice_1_m1 txt = butlast (tl txt)"

text \<open>\<open>str(n)\<close> for the integers that the code formats into names and URLs.\<close>

fun str_nat :: "nat \<Rightarrow> string" where
  "str_nat n =
     (if n < 10 then [''0123456789'' ! n]
      else str_nat (n div 10) @ [''0123456789'' ! (n mod 10)])"

declare str_nat.simps [simp del]

definition str_int :: "int \<Rightarrow> string" where
  "str_int i = (if i < 0 then CHR ''-'' # str_nat (nat (- i)) else str_nat (nat i))"

section \<open>Python values, errors and effects\<close>

text \<open>
  The values \<open>json.loads\<close> can return. A \<open>float\<close> is kept as the rational it denotes or
  one of the three constants the decoder accepts; the code only tests floats for
  truth and for equality as dictionary keys. A \<open>dict\<close> is the list of its items in
  insertion order.
\<close>

datatype pyfloat = Finite rat | PosInf | NegInf | NaN

datatype pyval =
    PyNone
  | PyBool bool
  | PyInt int
  | PyFloat pyfloat
  | PyStr string
  | PyList "pyval list"
  | PyDict "(string \<times> pyval) list"

text \<open>
  The exceptions of the program: the two it raises itself, with their messages, and
  the ones the interpreter, the libraries and the operating system raise under it
  (\<open>UnpackValueError\<close> is the \<open>ValueError\<close> of a tuple unpacking with the wrong number of
  values; \<open>OSError\<close> carries the name of its subclass, such as \<open>FileExistsError\<close>).
\<close>

datatype error =
    RuntimeError string
  | ValueError string
  | UnpackValueError
  | TypeError
  | KeyError
  | IndexError
  | RecursionError
  | OSError string

text \<open>
  A \<open>pathlib.Path\<close>, kept symbolic: \<open>Join p s\<close> is \<open>p / s\<close>. The model does not
  normalise paths and does not say which of them name the same file.
\<close>

datatype path = Path string | Join path string

text \<open>
  What a run does to the outside world, in order: directories made, files written,
  lines printed, requests sent.
\<close>

datatype notice =
    Wrote path
  | Skipping string
  | Downloading string int
  | DetectedProxy string

datatype event =
    Mkdir_parents path
  | Write_text path string
  | Print notice
  | Http_get string

type_synonym 'a action = "event list \<times> (error + 'a)"

text \<open>Sequencing: the events of both steps, unless the first one raises.\<close>

definition then_do :: "'a action \<Rightarrow> ('a \<Rightarrow> 'b action) \<Rightarrow> 'b action" where
  "then_do m f =
     (case m of
        (es, Inl e) \<Rightarrow> (es, Inl e)
      | (es, Inr x) \<Rightarrow> (case f x of (es', r) \<Rightarrow> (es @ es', r)))"

definition http_gets :: "event list \<Rightarrow> string list" where
  "http_gets es = concat (map (\<lambda>e. case e of Http_get u \<Rightarrow> [u] | _ \<Rightarrow> []) es)"

definition writes :: "event list \<Rightarrow> (path \<times> string) list" where
  "writes es = concat (map (\<lambda>e. case e of Write_text p c \<Rightarrow> [(p, c)] | _ \<Rightarrow> []) es)"

text \<open>Truth value of a Python object, as \<open>or\<close>, \<open>not\<close> and \<open>if\<close> test it.\<close>

fun truthy :: "pyval \<Rightarrow> bool" where
  "truthy PyNone = False"
| "truthy (PyBool b) = b"
| "truthy (PyInt i) = (i \<noteq> 0)"
| "truthy (PyFloat f) = (f \<noteq> Finite 0)"
| "truthy (PyStr s) = (s \<noteq> [])"
| "truthy (PyList xs) = (xs \<noteq> [])"
| "truthy (PyDict d) = (d \<noteq> [])"

text \<open>Dictionary keys: lists and dicts are unhashable; numbers compare by value.\<close>

fun hashable :: "pyval \<Rightarrow> bool" where
  "hashable (PyList xs) = False"
| "hashable (PyDict d) = False"
| "hashable v = True"

fun num_of :: "pyval \<Rightarrow> pyfloat option" where
  "num_of (PyBool b) = Some (Finite (if b then 1 else 0))"
| "num_of (PyInt i) = Some (Finite (of_int i))"
| "num_of (PyFloat f) = Some f"
| "num_of v = None"

definition key_eq :: "pyval \<Rightarrow> pyval \<Rightarrow> bool" where
  "key_eq a b =
     (case (num_of a, num_of b) of
        (Some x, Some y) \<Rightarrow> x = y
      | (None, None) \<Rightarrow> a = b
      | _ \<Rightarrow> False)"

text \<open>\<open>out[k] = v\<close>: a key already there keeps its place and gets the new value.\<close>

fun dict_store :: "pyval \<Rightarrow> pyval \<Rightarrow> (pyval \<times> pyval) list \<Rightarrow> (pyval \<times> pyval) list" where
  "dict_store k v [] = [(k, v)]"
| "dict_store k v ((k', v') # d) =
     (if key_eq k' k then (k', v) # d else (k', v') # dict_store k v d)"

text \<open>
  The record of one contract, \<open>Mapping[str, str]\<close>, in the order of its keys;
  \<open>get_or r k d\<close> is \<open>r.get(k, d)\<close>.
\<close>

type_synonym raw_result = "(string \<times> string) list"

definition get_or :: "raw_result \<Rightarrow> string \<Rightarrow> string \<Rightarrow> string" where
  "get_or r k d = (case map_of r k of Some v \<Rightarrow> v | None \<Rightarrow> d)"

text \<open>
  The collaborators outside the repository: the JSON decoder and encoder of the
  standard library, the remote API and the operating system.

  A call of \<open>json.loads\<close> returns a value, raises \<open>JSONDecodeError\<close>, or raises something
  else (a \<open>ValueError\<close> on an integer of more than 4300 digits, a \<open>RecursionError\<close> on
  deep nesting).

  A reply of the API is a failed request, or the decoded envelope: its \<open>status\<close>, the
  text its \<open>result\<close> formats to, and the records of \<open>result\<close>.

  \<open>os_error ev\<close> is the exception with which the operating system refuses to make
  the directories or to write the file of the event \<open>ev\<close>, \<open>None\<close> when it accepts. A run
  stops at the first refusal, so one answer for each effect describes a run.
\<close>

datatype decoded =
    Decoded pyval
  | JSONDecodeError
  | Raises error

datatype http_reply =
    RequestException string
  | Reply "string option" string "raw_result list"

record env =
  loads :: "string \<Rightarrow> decoded"
  dumps :: "raw_result \<Rightarrow> string"
  http :: "string \<Rightarrow> http_reply"
  os_error :: "event \<Rightarrow> error option"

record options =
  apikey :: string
  save_abi :: bool
  save_metadata :: bool
  include_metadata_keys :: "string set option"
  exclude_metadata_keys :: "string set option"

section \<open>The bundle parser\<close>

definition is_single_file_contract :: "string \<Rightarrow> bool" where
  "is_single_file_contract src =
     (let txt = lstrip src
      in (startswith txt ''pragma'' \<or> startswith txt ''//'' \<or> startswith txt ''/*'')
         \<or> startswith txt [CHR 0x0D, CHR 0x0A])"

definition double_curly_wrapped :: "string \<Rightarrow> bool" where
  "double_curly_wrapped txt =
     (startswith (lstrip txt) ''{{'' \<and> endswith (rstrip txt) ''}}'')"

text \<open>Only \<open>JSONDecodeError\<close> is caught and turned into \<open>None\<close>; any other exception of
  the decoder leaves the function.\<close>

definition json_or_none :: "(string \<Rightarrow> decoded) \<Rightarrow> string \<Rightarrow> error + pyval" where
  "json_or_none decode txt =
     (case decode txt of
        Decoded v \<Rightarrow> Inr v
      | JSONDecodeError \<Rightarrow> Inr PyNone
      | Raises e \<Rightarrow> Inl e)"

text \<open>The text handed to the decoder: the blob trimmed, and unwrapped once when it
  is wrapped in double braces.\<close>

definition bundle_text :: "string \<Rightarrow> string" where
  "bundle_text blob =
     (let txt = strip blob
      in if double_curly_wrapped txt then strip (slice_1_m1 txt) else txt)"

text \<open>\<open>a or b\<close>, with \<open>b\<close> evaluated only when \<open>a\<close> is not true, and either of them able
  to raise.\<close>

definition py_or :: "error + pyval \<Rightarrow> error + pyval \<Rightarrow> error + pyval" where
  "py_or a b = (case a of Inl e \<Rightarrow> Inl e | Inr v \<Rightarrow> if truthy v then Inr v else b)"

definition parse_source_code_object :: "(string \<Rightarrow> decoded) \<Rightarrow> string \<Rightarrow> error + pyval" where
  "parse_source_code_object decode blob =
     (let txt = bundle_text blob
      in case py_or (json_or_none decode txt) (json_or_none decode (slice_1_m1 txt)) of
           Inl e \<Rightarrow> Inl e
         | Inr parsed \<Rightarrow>
             if \<not> truthy parsed then Inl (RuntimeError ''Could not decode SourceCode JSON bundle'')
             else (case parsed of
                     PyDict d \<Rightarrow> (case map_of d ''sources'' of Some s \<Rightarrow> Inr s | None \<Rightarrow> Inr parsed)
                   | _ \<Rightarrow> Inr parsed))"

text \<open>\<open>for name, meta in parsed\<close>: one element of the list unpacked into two values.\<close>

fun unpack2 :: "pyval \<Rightarrow> error + (pyval \<times> pyval)" where
  "unpack2 (PyList xs) = (case xs of [a, b] \<Rightarrow> Inr (a, b) | _ \<Rightarrow> Inl UnpackValueError)"
| "unpack2 (PyStr s) = (case s of [a, b] \<Rightarrow> Inr (PyStr [a], PyStr [b]) | _ \<Rightarrow> Inl UnpackValueError)"
| "unpack2 (PyDict d) =
     (case d of [(a, _), (b, _)] \<Rightarrow> Inr (PyStr a, PyStr b) | _ \<Rightarrow> Inl UnpackValueError)"
| "unpack2 v = Inl TypeError"

fun pairs_to_map :: "pyval list \<Rightarrow> (pyval \<times> pyval) list \<Rightarrow> error + (pyval \<times> pyval) list" where
  "pairs_to_map [] out = Inr out"
| "pairs_to_map (x # xs) out =
     (case unpack2 x of
        Inl e \<Rightarrow> Inl e
      | Inr (name, meta) \<Rightarrow>
          (case (case meta of
                   PyDict m \<Rightarrow> (case map_of m ''content'' of Some c \<Rightarrow> Inr c | None \<Rightarrow> Inl KeyError)
                 | _ \<Rightarrow> Inr meta) of
             Inl e \<Rightarrow> Inl e
           | Inr v \<Rightarrow> if hashable name then pairs_to_map xs (dict_store name v out)
                      else Inl TypeError))"

definition sources_to_map :: "pyval \<Rightarrow> error + (pyval \<times> pyval) list" where
  "sources_to_map parsed =
     (case parsed of
        PyDict d \<Rightarrow>
          Inr (foldl (\<lambda>out (name, meta).
                 dict_store (PyStr name)
                   (case meta of
                      PyDict m \<Rightarrow> (case map_of m ''content'' of Some c \<Rightarrow> c | None \<Rightarrow> meta)
                    | _ \<Rightarrow> meta) out) [] d)
      | PyList xs \<Rightarrow> pairs_to_map xs []
      | _ \<Rightarrow> Inl (RuntimeError ''Unexpected JSON structure inside SourceCode bundle''))"

section \<open>Writing, fetching, filtering\<close>

text \<open>
  \<open>_write_file\<close>: the parent directories are made, the text is written, the path is
  printed. The operating system may refuse the directories or the file;
  \<open>write_text\<close> refuses data that is not a \<open>str\<close>, after the directories are made.
  Printing is taken to succeed.
\<close>

definition write_file :: "(event \<Rightarrow> error option) \<Rightarrow> path \<Rightarrow> pyval \<Rightarrow> unit action" where
  "write_file os p content =
     (case os (Mkdir_parents p) of
        Some e \<Rightarrow> ([], Inl e)
      | None \<Rightarrow>
          (case content of
             PyStr s \<Rightarrow>
               (case os (Write_text p s) of
                  Some e \<Rightarrow> ([Mkdir_parents p], Inl e)
                | None \<Rightarrow> ([Mkdir_parents p, Write_text p s, Print (Wrote p)], Inr ()))
           | _ \<Rightarrow> ([Mkdir_parents p], Inl TypeError)))"

definition api_url :: "int \<Rightarrow> string \<Rightarrow> string \<Rightarrow> string" where
  "api_url chainid address key =
     ''https://api.etherscan.io/v2/api?chainid='' @ str_int chainid
       @ ''&module=contract&action=getsourcecode&address='' @ address
       @ ''&apikey='' @ key"

definition fetch_source :: "env \<Rightarrow> string \<Rightarrow> int \<Rightarrow> string \<Rightarrow> raw_result action" where
  "fetch_source E address chainid key =
     (if key = [] \<or> key = ''YOUR_ETHERSCAN_V2_API_KEY''
      then ([], Inl (ValueError ''API key not set at top of file''))
      else
        let url = api_url chainid address key
        in (case http E url of
              RequestException e \<Rightarrow> ([Http_get url], Inl (RuntimeError (''HTTP request failed: '' @ e)))
            | Reply status msg results \<Rightarrow>
                if status \<noteq> Some ''1''
                then ([Http_get url],
                      Inl (RuntimeError (''Etherscan error for '' @ address @ '': '' @ msg)))
                else (case results of
                        [] \<Rightarrow> ([Http_get url], Inl IndexError)
                      | r # _ \<Rightarrow> ([Http_get url], Inr r))))"

definition filter_metadata ::
  "(string \<times> 'v) list \<Rightarrow> string set option \<Rightarrow> string set option \<Rightarrow> (string \<times> 'v) list" where
  "filter_metadata metadata include_keys exclude_keys =
     (case include_keys of
        Some inc \<Rightarrow> filter (\<lambda>(k, v). k \<in> inc) metadata
      | None \<Rightarrow>
          (case exclude_keys of
             Some exc \<Rightarrow> filter (\<lambda>(k, v). k \<notin> exc) metadata
           | None \<Rightarrow> metadata))"

text \<open>The loop of \<open>write_sources\<close> over the items of the normalised mapping, \<open>i\<close> the
  running index of \<open>enumerate\<close>.\<close>

fun write_entries ::
  "(event \<Rightarrow> error option) \<Rightarrow> path \<Rightarrow> nat \<Rightarrow> (pyval \<times> pyval) list \<Rightarrow> unit action" where
  "write_entries os outdir i [] = ([], Inr ())"
| "write_entries os outdir i ((name, code) # rest) =
     then_do
       (case (if truthy name then name else PyStr (''Contract_'' @ str_nat i @ ''.sol'')) of
          PyStr s \<Rightarrow> write_file os (Join outdir s) code
        | _ \<Rightarrow> ([], Inl TypeError))
       (\<lambda>_. write_entries os outdir (Suc i) rest)"

definition write_sources ::
  "env \<Rightarrow> raw_result \<Rightarrow> path \<Rightarrow> bool \<Rightarrow> bool \<Rightarrow> string set option \<Rightarrow> string set option \<Rightarrow> unit action" where
  "write_sources E result outdir abi meta inc exc =
     (let src_blob = get_or result ''SourceCode'' ''''
      in if src_blob = [] then ([], Inl (RuntimeError ''Contract is not verified or has no source''))
         else
           then_do
             (if is_single_file_contract src_blob
              then let name = (case map_of result ''ContractName'' of
                                 Some n \<Rightarrow> if n = [] then ''Contract'' else n
                               | None \<Rightarrow> ''Contract'')
                   in write_file (os_error E) (Join outdir (name @ ''.sol'')) (PyStr src_blob)
              else (case parse_source_code_object (loads E) src_blob of
                      Inl e \<Rightarrow> ([], Inl e)
                    | Inr parsed \<Rightarrow>
                        (case sources_to_map parsed of
                           Inl e \<Rightarrow> ([], Inl e)
                         | Inr m \<Rightarrow> write_entries (os_error E) outdir 1 m)))
             (\<lambda>_. then_do
                (if abi
                 then write_file (os_error E) (Join outdir ''abi.json'')
                        (PyStr (get_or result ''ABI'' ''''))
                 else ([], Inr ()))
                (\<lambda>_. if meta
                     then write_file (os_error E) (Join outdir ''contract_metadata.json'')
                            (PyStr (dumps E (filter_metadata result inc exc)))
                     else ([], Inr ()))))"

section \<open>The downloaders\<close>

definition download_contract_source :: "env \<Rightarrow> string \<Rightarrow> int \<Rightarrow> path \<Rightarrow> options \<Rightarrow> unit action" where
  "download_contract_source E address chainid outdir opts =
     then_do (fetch_source E address chainid (apikey opts))
       (\<lambda>result.
          write_sources E result
            (Join outdir (get_or result ''ContractName'' ''Contract'' @ ''-'' @ lower address))
            (save_abi opts) (save_metadata opts)
            (include_metadata_keys opts) (exclude_metadata_keys opts))"

text \<open>
  One call of \<open>download_contract_source_recursive\<close> up to its last statement: it
  returns (with the events, the visited set and the outcome), or it is about to call
  itself on the implementation, under the implementation's directory, with the same
  visited set.
\<close>

datatype step =
    Return "event list" "string set" "error + unit"
  | Recurse "event list" string path "string set"

definition download_step ::
  "env \<Rightarrow> string \<Rightarrow> int \<Rightarrow> path \<Rightarrow> options \<Rightarrow> string set option \<Rightarrow> step" where
  "download_step E address0 chainid outdir opts visited0 =
     (let visited = (case visited0 of None \<Rightarrow> {} | Some v \<Rightarrow> v);
          address = lower address0
      in if address \<in> visited then Return [Print (Skipping address)] visited (Inr ())
         else
           let visited = insert address visited;
               started = [Print (Downloading address chainid)]
           in (case fetch_source E address chainid (apikey opts) of
                 (es1, Inl e) \<Rightarrow> Return (started @ es1) visited (Inl e)
               | (es1, Inr result) \<Rightarrow>
                   let base_dir =
                         Join outdir (get_or result ''ContractName'' ''Contract'' @ ''-'' @ lower address)
                   in (case write_sources E result base_dir (save_abi opts) (save_metadata opts)
                              (include_metadata_keys opts) (exclude_metadata_keys opts) of
                         (es2, Inl e) \<Rightarrow> Return (started @ es1 @ es2) visited (Inl e)
                       | (es2, Inr _) \<Rightarrow>
                           let is_proxy = (map_of result ''Proxy'' = Some ''1'');
                               implementation = lower (get_or result ''Implementation'' '''')
                           in if is_proxy \<and> implementation \<noteq> []
                                 \<and> implementation \<noteq> ''0x0000000000000000000000000000000000000000''
                              then Recurse
                                     (started @ es1 @ es2 @ [Print (DetectedProxy implementation)])
                                     implementation
                                     (Join base_dir (''implementation-'' @ implementation))
                                     visited
                              else Return (started @ es1 @ es2) visited (Inr ()))))"

text \<open>
  The recursion, with fuel for its depth: \<open>None\<close> is a run that needs more calls than
  the fuel allows.
\<close>

fun download_contract_source_recursive ::
  "nat \<Rightarrow> env \<Rightarrow> string \<Rightarrow> int \<Rightarrow> path \<Rightarrow> options \<Rightarrow> string set option
     \<Rightarrow> (event list \<times> string set \<times> (error + unit)) option" where
  "download_contract_source_recursive 0 E address chainid outdir opts visited = None"
| "download_contract_source_recursive (Suc n) E address chainid outdir opts visited =
     (case download_step E address chainid outdir opts visited of
        Return es v r \<Rightarrow> Some (es, v, r)
      | Recurse es implementation impl_dir v \<Rightarrow>
          (case download_contract_source_recursive n E implementation chainid impl_dir opts (Some v) of
             None \<Rightarrow> None
           | Some (es', v', r) \<Rightarrow> Some (es @ es', v', r)))"

section \<open>Notions used in the statements\<close>

text \<open>The string of a \<open>str\<close> object.\<close>

fun the_str :: "pyval \<Rightarrow> string" where
  "the_str (PyStr s) = s"
| "the_str v = []"

text \<open>The side files of \<open>write_sources\<close>, as (path, content) pairs in the order written.\<close>

definition side_writes ::
  "env \<Rightarrow> raw_result \<Rightarrow> path \<Rightarrow> bool \<Rightarrow> bool \<Rightarrow> string set option \<Rightarrow> string set option
     \<Rightarrow> (path \<times> string) list" where
  "side_writes E result outdir abi meta inc exc =
     (if abi then [(Join outdir ''abi.json'', get_or result ''ABI'' '''')] else [])
     @ (if meta then [(Join outdir ''contract_metadata.json'', dumps E (filter_metadata result inc exc))]
        else [])"

text \<open>A decode attempt that gives the parser nothing to go on: the decoder raises
  \<open>JSONDecodeError\<close>, or the value it returns is empty, zero, false or null.\<close>

definition attempt_empty :: "(string \<Rightarrow> decoded) \<Rightarrow> string \<Rightarrow> bool" where
  "attempt_empty decode txt =
     (case decode txt of Decoded v \<Rightarrow> \<not> truthy v | JSONDecodeError \<Rightarrow> True | Raises e \<Rightarrow> False)"

text \<open>The operating system accepts the directories and the file of each of the
  given (path, content) pairs.\<close>

definition accepted :: "env \<Rightarrow> (path \<times> string) list \<Rightarrow> bool" where
  "accepted E ws =
     list_all (\<lambda>(p, c). os_error E (Mkdir_parents p) = None \<and> os_error E (Write_text p c) = None) ws"

text \<open>The address a record sends the recursive downloader to: the lower-cased
  \<open>Implementation\<close> of a record that is flagged as a proxy and names an implementation
  other than the zero address.\<close>

definition proxy_target :: "raw_result \<Rightarrow> string option" where
  "proxy_target r =
     (case map_of r ''Implementation'' of
        None \<Rightarrow> None
      | Some i \<Rightarrow>
          if map_of r ''Proxy'' = Some ''1'' \<and> i \<noteq> []
             \<and> lower i \<noteq> ''0x0000000000000000000000000000000000000000''
          then Some (lower i) else None)"

section \<open>Example data\<close>

text \<open>
  A decoder, an encoder, a remote API and an operating system for the worked
  examples. The decoder knows four texts, with what \<open>json.loads\<close> does on them: \<open>{}\<close>,
  a bundle of two files, the second with an empty name, a bundle with the names \<open>a\<close>
  and \<open>a/b.sol\<close>, and a list holding an integer of 4301 digits, on which it raises
  \<open>ValueError\<close>; the other texts of the examples are not JSON. The encoder renders a record as \<open>json.dumps\<close> with
  \<open>indent=2\<close> does when only quotes, backslashes and line feeds need escaping. The
  API serves, on chain 1 and for the key \<open>KEY\<close>, two proxies that name each other, a
  proxy with no verified source and a proxy whose implementation is the zero address
  written with a capital X; \<open>multi_file\<close> is a record whose source is the bundle. The
  operating system of \<open>example_env\<close> accepts everything; \<open>clash_os\<close> is the one met by a
  bundle with the names \<open>a\<close> and \<open>a/b.sol\<close> under \<open>out\<close>, where \<open>a\<close> is a file by the time
  the directories of the second name are to be made.
\<close>

definition quoted :: "string \<Rightarrow> string" where
  "quoted s = CHR 0x22 # s @ [CHR 0x22]"

definition example_bundle :: string where
  "example_bundle =
     ''{'' @ quoted ''A.sol'' @ '':{'' @ quoted ''content'' @ '':'' @ quoted ''a'' @ ''},''
       @ quoted [] @ '':'' @ quoted ''b'' @ ''}''"

definition clash_bundle :: string where
  "clash_bundle =
     ''{'' @ quoted ''a'' @ '':'' @ quoted ''x'' @ '','' @ quoted ''a/b.sol'' @ '':'' @ quoted ''y''
       @ ''}''"

definition long_integer :: string where
  "long_integer = ''['' @ replicate 4301 (CHR ''1'') @ '']''"

definition example_loads :: "string \<Rightarrow> decoded" where
  "example_loads txt =
     (if txt = ''{}'' then Decoded (PyDict [])
      else if txt = example_bundle
      then Decoded (PyDict [(''A.sol'', PyDict [(''content'', PyStr ''a'')]), ([], PyStr ''b'')])
      else if txt = clash_bundle
      then Decoded (PyDict [(''a'', PyStr ''x''), (''a/b.sol'', PyStr ''y'')])
      else if txt = long_integer
      then Raises (ValueError (''Exceeds the limit (4300 digits) for integer string conversion: ''
                     @ ''value has 4301 digits; use sys.set_int_max_str_digits() ''
                     @ ''to increase the limit''))
      else JSONDecodeError)"

definition clash_os :: "event \<Rightarrow> error option" where
  "clash_os ev =
     (if ev = Mkdir_parents (Join (Path ''out'') ''a/b.sol'') then Some (OSError ''FileExistsError'')
      else None)"

definition clash_file :: raw_result where
  "clash_file = [(''SourceCode'', clash_bundle)]"

definition crlf_contract :: raw_result where
  "crlf_contract =
     [(''SourceCode'', [CHR 0x0D, CHR 0x0A] @ ''contract X {}''), (''ContractName'', ''X'')]"

definition example_dumps :: "raw_result \<Rightarrow> string" where
  "example_dumps r =
     (let esc = (\<lambda>c. if c = CHR 0x22 \<or> c = CHR 0x5C then [CHR 0x5C, c]
                     else if c = CHR 0x0A then [CHR 0x5C, CHR ''n''] else [c]);
          str = (\<lambda>s. quoted (concat (map esc s)));
          item = (\<lambda>(k, v). ''  '' @ str k @ '': '' @ str v)
      in case r of
           [] \<Rightarrow> ''{}''
         | x # xs \<Rightarrow> ''{'' @ [CHR 0x0A] @ item x
                      @ concat (map (\<lambda>y. '','' @ [CHR 0x0A] @ item y) xs) @ [CHR 0x0A] @ ''}'')"

definition proxy_a :: raw_result where
  "proxy_a = [(''SourceCode'', ''pragma solidity ^0.8.0;''), (''ContractName'', ''ProxyA''),
              (''Proxy'', ''1''), (''Implementation'', ''0xBB'')]"

definition proxy_b :: raw_result where
  "proxy_b = [(''SourceCode'', ''// logic''), (''ContractName'', ''LogicB''),
              (''Proxy'', ''1''), (''Implementation'', ''0xAA'')]"

definition unverified_proxy :: raw_result where
  "unverified_proxy = [(''ContractName'', ''Hidden''), (''Proxy'', ''1''), (''Implementation'', ''0xdd'')]"

definition capital_zero_proxy :: raw_result where
  "capital_zero_proxy =
     [(''SourceCode'', ''pragma solidity ^0.8.0;''), (''ContractName'', ''Zero''), (''Proxy'', ''1''),
      (''Implementation'', ''0X0000000000000000000000000000000000000000'')]"

definition multi_file :: raw_result where
  "multi_file = [(''SourceCode'', example_bundle), (''ContractName'', ''Multi'')]"

definition example_http :: "string \<Rightarrow> http_reply" where
  "example_http url =
     (if url = api_url 1 ''0xaa'' ''KEY'' then Reply (Some ''1'') ''OK'' [proxy_a]
      else if url = api_url 1 ''0xbb'' ''KEY'' then Reply (Some ''1'') ''OK'' [proxy_b]
      else if url = api_url 1 ''0xcc'' ''KEY'' then Reply (Some ''1'') ''OK'' [unverified_proxy]
      else if url = api_url 1 ''0xee'' ''KEY'' then Reply (Some ''1'') ''OK'' [capital_zero_proxy]
      else RequestException ''unreachable'')"

definition example_env :: env where
  "example_env = \<lparr>loads = example_loads, dumps = example_dumps, http = example_http,
      os_error = (\<lambda>ev. None)\<rparr>"

definition example_options :: options where
  "example_options =
     \<lparr>apikey = ''KEY'', save_abi = False, save_metadata = False,
      include_metadata_keys = None, exclude_metadata_keys = None\<rparr>"

section \<open>Auxiliary facts\<close>

lemma then_do_Inl [simp]: "then_do (es, Inl e) f = (es, Inl e)"
  by (simp add: then_do_def)

lemma then_do_Inr [simp]: "then_do (es, Inr x) f = (es @ fst (f x), snd (f x))"
  by (simp add: then_do_def split: prod.splits)

lemma then_do_ok:
  "snd m = Inr x \<Longrightarrow> fst (then_do m f) = fst m @ fst (f x)"
  "snd m = Inr x \<Longrightarrow> snd (then_do m f) = snd (f x)"
  by (cases m; simp)+

lemma writes_append [simp]: "writes (xs @ ys) = writes xs @ writes ys"
  by (simp add: writes_def)

lemma writes_Nil [simp]: "writes [] = []"
  by (simp add: writes_def)

lemma writes_Cons [simp]:
  "writes (Mkdir_parents p # es) = writes es"
  "writes (Write_text p c # es) = (p, c) # writes es"
  "writes (Print n # es) = writes es"
  "writes (Http_get u # es) = writes es"
  by (simp_all add: writes_def)

subsection \<open>Writing one file\<close>

lemma write_file_accepted:
  "os (Mkdir_parents p) = None \<Longrightarrow> os (Write_text p s) = None \<Longrightarrow>
   write_file os p (PyStr s) = ([Mkdir_parents p, Write_text p s, Print (Wrote p)], Inr ())"
  by (simp add: write_file_def)

lemma write_file_cases:
  "(\<exists>es e. write_file os p content = (es, Inl e) \<and> writes es = [])
   \<or> (\<exists>s. content = PyStr s \<and> os (Mkdir_parents p) = None \<and> os (Write_text p s) = None
          \<and> write_file os p content = ([Mkdir_parents p, Write_text p s, Print (Wrote p)], Inr ()))"
  by (cases content) (auto simp add: write_file_def writes_def split: option.splits)

lemma write_file_ok:
  assumes "snd (write_file os p content) = Inr ()"
  shows "\<exists>s. content = PyStr s \<and> os (Mkdir_parents p) = None \<and> os (Write_text p s) = None
           \<and> write_file os p content = ([Mkdir_parents p, Write_text p s, Print (Wrote p)], Inr ())"
  using write_file_cases [of os p content] assms by auto

lemma write_file_raises:
  assumes "snd (write_file os p content) = Inl e"
  shows "writes (fst (write_file os p content)) = []"
  using write_file_cases [of os p content] assms by auto

subsection \<open>Trimming\<close>

lemma rstrip_prefix: "prefix (rstrip t) t"
proof -
  have "rev t = takeWhile is_space (rev t) @ dropWhile is_space (rev t)"
    by simp
  then have "t = rev (dropWhile is_space (rev t)) @ rev (takeWhile is_space (rev t))"
    by (metis rev_append rev_rev_ident)
  then show ?thesis
    unfolding rstrip_def by (metis prefixI)
qed

lemma startswith_strip: "startswith (strip s) p \<Longrightarrow> startswith (lstrip s) p"
  unfolding startswith_def strip_def using rstrip_prefix prefix_order.trans by blast

lemma lstrip_no_space: "s \<noteq> [] \<Longrightarrow> \<not> is_space (hd s) \<Longrightarrow> lstrip s = s"
  by (cases s) (simp_all add: lstrip_def)

lemma rstrip_no_space: "s \<noteq> [] \<Longrightarrow> \<not> is_space (last s) \<Longrightarrow> rstrip s = s"
  by (cases s rule: rev_cases) (simp_all add: rstrip_def)

lemma strip_no_space: "s \<noteq> [] \<Longrightarrow> \<not> is_space (hd s) \<Longrightarrow> \<not> is_space (last s) \<Longrightarrow> strip s = s"
  by (simp add: strip_def lstrip_no_space rstrip_no_space)

lemma lstrip_never_starts_with_space: "lstrip s = c # cs \<Longrightarrow> \<not> is_space c"
  unfolding lstrip_def by (metis dropWhile_eq_Cons_conv)

text \<open>A left-trimmed text never starts with a carriage return: the fourth test of
  \<open>is_single_file_contract\<close> is never the one that succeeds.\<close>

lemma crlf_test_never_holds: "\<not> startswith (lstrip s) [CHR 0x0D, CHR 0x0A]"
proof
  assume "startswith (lstrip s) [CHR 0x0D, CHR 0x0A]"
  then obtain r where "lstrip s = CHR 0x0D # r"
    by (auto simp add: startswith_def prefix_def)
  then have "\<not> is_space (CHR 0x0D)"
    by (rule lstrip_never_starts_with_space)
  then show False
    by (simp add: is_space_def)
qed

lemma strip_braced:
  assumes "startswith u ''{''" "endswith u ''}''"
  shows "strip u = u" "lstrip u = u" "rstrip u = u"
proof -
  from assms obtain r where r: "u = CHR ''{'' # r"
    by (auto simp add: startswith_def prefix_def)
  from assms obtain l where l: "u = l @ ''}''"
    by (auto simp add: endswith_def suffix_def)
  have h: "\<not> is_space (hd u)" using r by (simp add: is_space_def)
  have t: "\<not> is_space (last u)" using l by (simp add: is_space_def)
  have n: "u \<noteq> []" using r by simp
  show "strip u = u" "lstrip u = u" "rstrip u = u"
    using h t n by (simp_all add: strip_no_space lstrip_no_space rstrip_no_space)
qed

lemma slice_wrapped: "slice_1_m1 (''{'' @ u @ ''}'') = u"
  by (simp add: slice_1_m1_def butlast_append)

subsection \<open>The side files and the loop over the entries\<close>

lemma optional_file:
  fixes os flag p s
  defines "A \<equiv> (if flag then write_file os p (PyStr s) else ([], Inr ()))"
  shows "prefix (writes (fst A)) (if flag then [(p, s)] else [])"
    and "snd A = Inr () \<Longrightarrow> writes (fst A) = (if flag then [(p, s)] else [])"
    and "snd A = Inl e \<Longrightarrow> writes (fst A) = []"
    and "(flag \<longrightarrow> os (Mkdir_parents p) = None \<and> os (Write_text p s) = None) \<Longrightarrow> snd A = Inr ()"
  unfolding A_def
  by (auto simp add: write_file_def writes_def split: option.splits)

lemma side_files:
  fixes E result outdir abi meta inc exc
  defines "side \<equiv> then_do
      (if abi
       then write_file (os_error E) (Join outdir ''abi.json'') (PyStr (get_or result ''ABI'' ''''))
       else ([], Inr ()))
      (\<lambda>_. if meta
           then write_file (os_error E) (Join outdir ''contract_metadata.json'')
                  (PyStr (dumps E (filter_metadata result inc exc)))
           else ([], Inr ()))"
  shows "prefix (writes (fst side)) (side_writes E result outdir abi meta inc exc)"
    and "snd side = Inr () \<Longrightarrow> writes (fst side) = side_writes E result outdir abi meta inc exc"
    and "accepted E (side_writes E result outdir abi meta inc exc) \<Longrightarrow> snd side = Inr ()"
proof -
  define A where "A = (if abi
       then write_file (os_error E) (Join outdir ''abi.json'') (PyStr (get_or result ''ABI'' ''''))
       else ([], Inr ()))"
  define M where "M = (if meta
           then write_file (os_error E) (Join outdir ''contract_metadata.json'')
                  (PyStr (dumps E (filter_metadata result inc exc)))
           else ([], Inr ()))"
  define wa where "wa = (if abi then [(Join outdir ''abi.json'', get_or result ''ABI'' '''')] else [])"
  define wm where "wm = (if meta then [(Join outdir ''contract_metadata.json'',
                                        dumps E (filter_metadata result inc exc))] else [])"
  have side: "side = then_do A (\<lambda>_. M)"
    by (simp add: side_def A_def M_def)
  have sw: "side_writes E result outdir abi meta inc exc = wa @ wm"
    by (simp add: side_writes_def wa_def wm_def)
  note a = optional_file [of abi "os_error E" "Join outdir ''abi.json''" "get_or result ''ABI'' ''''",
      folded A_def wa_def]
  note m = optional_file [of meta "os_error E" "Join outdir ''contract_metadata.json''"
      "dumps E (filter_metadata result inc exc)", folded M_def wm_def]
  show "prefix (writes (fst side)) (side_writes E result outdir abi meta inc exc)"
  proof (cases "snd A")
    case (Inl e)
    then have "side = (fst A, Inl e)"
      unfolding side by (cases A) simp
    with a(3) [OF Inl] show ?thesis
      by simp
  next
    case (Inr u)
    then have ok: "snd A = Inr ()"
      by simp
    then have "writes (fst side) = wa @ writes (fst M)"
      unfolding side using a(2) by (simp add: then_do_ok)
    with m(1) show ?thesis
      unfolding sw by simp
  qed
  show "writes (fst side) = side_writes E result outdir abi meta inc exc" if "snd side = Inr ()"
  proof (cases "snd A")
    case (Inl e)
    then have "side = (fst A, Inl e)"
      unfolding side by (cases A) simp
    with that show ?thesis
      by simp
  next
    case (Inr u)
    then have ok: "snd A = Inr ()"
      by simp
    with that have "snd M = Inr ()"
      unfolding side by (simp add: then_do_ok)
    with ok show ?thesis
      unfolding side sw using a(2) m(2) by (simp add: then_do_ok)
  qed
  show "snd side = Inr ()" if "accepted E (side_writes E result outdir abi meta inc exc)"
  proof -
    from that have "snd A = Inr ()" "snd M = Inr ()"
      unfolding sw by (auto simp add: accepted_def wa_def wm_def intro: a(4) m(4) split: if_splits)
    then show ?thesis
      unfolding side by (simp add: then_do_ok)
  qed
qed

lemma write_entries_names:
  "prefix (writes (fst (write_entries os outdir i files)))
     (map (\<lambda>(j, name, code).
             (Join outdir (if truthy name then the_str name
                           else ''Contract_'' @ str_nat j @ ''.sol''), the_str code))
        (zip [i..<i + length files] files))
   \<and> (snd (write_entries os outdir i files) = Inr () \<longrightarrow>
        writes (fst (write_entries os outdir i files))
          = map (\<lambda>(j, name, code).
                   (Join outdir (if truthy name then the_str name
                                 else ''Contract_'' @ str_nat j @ ''.sol''), the_str code))
              (zip [i..<i + length files] files))"
proof (induction files arbitrary: i)
  case Nil
  show ?case by simp
next
  case (Cons entry rest)
  obtain name code where entry: "entry = (name, code)"
    by (cases entry)
  have upt: "[i..<Suc (i + length rest)] = i # [Suc i..<Suc (i + length rest)]"
    by (subst upt_rec) simp
  note ih = Cons.IH [of "Suc i"]
  define target where
    "target = (if truthy name then name else PyStr (''Contract_'' @ str_nat i @ ''.sol''))"
  define first where
    "first = (case target of PyStr s \<Rightarrow> write_file os (Join outdir s) code
              | _ \<Rightarrow> ([], Inl TypeError))"
  have unfold: "write_entries os outdir i ((name, code) # rest)
                  = then_do first (\<lambda>_. write_entries os outdir (Suc i) rest)"
    by (simp add: first_def target_def)
  show ?case
  proof (cases "snd first")
    case (Inl e)
    have "writes (fst first) = []"
    proof (cases "\<exists>s. target = PyStr s")
      case True
      then obtain s where "target = PyStr s"
        by blast
      with Inl show ?thesis
        by (simp add: first_def write_file_raises)
    next
      case False
      then show ?thesis
        by (cases target) (simp_all add: first_def)
    qed
    with Inl have "writes (fst (write_entries os outdir i ((name, code) # rest))) = []"
        "snd (write_entries os outdir i ((name, code) # rest)) \<noteq> Inr ()"
      unfolding unfold by (cases first; simp)+
    then show ?thesis
      unfolding entry by simp
  next
    case (Inr u)
    then have ok: "snd first = Inr ()"
      by simp
    then obtain s where target: "target = PyStr s"
      by (cases target) (simp_all add: first_def)
    with ok have "snd (write_file os (Join outdir s) code) = Inr ()"
      by (simp add: first_def)
    from write_file_ok [OF this] target obtain c where code: "code = PyStr c"
      and first: "first = ([Mkdir_parents (Join outdir s), Write_text (Join outdir s) c,
                            Print (Wrote (Join outdir s))], Inr ())"
      by (auto simp add: first_def)
    have s: "s = (if truthy name then the_str name else ''Contract_'' @ str_nat i @ ''.sol'')"
      using target unfolding target_def by (auto split: if_splits)
    have "writes (fst (write_entries os outdir i ((name, code) # rest)))
            = (Join outdir s, c) # writes (fst (write_entries os outdir (Suc i) rest))"
        "snd (write_entries os outdir i ((name, code) # rest))
            = snd (write_entries os outdir (Suc i) rest)"
      unfolding unfold first by (simp_all add: writes_def)
    then show ?thesis
      unfolding entry using ih s
      by (simp add: code upt del: upt_Suc write_entries.simps)
  qed
qed

lemma write_entries_typed:
  assumes "\<forall>(name, code)\<in>set files.
             (\<exists>s. code = PyStr s) \<and> (truthy name \<longrightarrow> (\<exists>s. name = PyStr s))"
    and "list_all (\<lambda>(p, c). os (Mkdir_parents p) = None \<and> os (Write_text p c) = None)
           (map (\<lambda>(j, name, code).
                   (Join outdir (if truthy name then the_str name
                                 else ''Contract_'' @ str_nat j @ ''.sol''), the_str code))
              (zip [i..<i + length files] files))"
  shows "snd (write_entries os outdir i files) = Inr ()"
  using assms
proof (induction files arbitrary: i)
  case Nil
  show ?case by simp
next
  case (Cons entry rest)
  obtain name code where entry: "entry = (name, code)"
    by (cases entry)
  from Cons.prems(1) entry obtain c where code: "code = PyStr c"
    by auto
  have upt: "[i..<Suc (i + length rest)] = i # [Suc i..<Suc (i + length rest)]"
    by (subst upt_rec) simp
  define s where
    "s = (if truthy name then the_str name else ''Contract_'' @ str_nat i @ ''.sol'')"
  from Cons.prems(2) have here: "os (Mkdir_parents (Join outdir s)) = None"
      "os (Write_text (Join outdir s) c) = None"
    and there: "list_all (\<lambda>(p, c). os (Mkdir_parents p) = None \<and> os (Write_text p c) = None)
           (map (\<lambda>(j, name, code).
                   (Join outdir (if truthy name then the_str name
                                 else ''Contract_'' @ str_nat j @ ''.sol''), the_str code))
              (zip [Suc i..<Suc i + length rest] rest))"
    unfolding entry s_def by (simp_all add: code upt del: upt_Suc)
  from Cons.prems(1) have rest: "\<forall>(name, code)\<in>set rest.
             (\<exists>s. code = PyStr s) \<and> (truthy name \<longrightarrow> (\<exists>s. name = PyStr s))"
    by simp
  note ih = Cons.IH [OF rest there]
  have target: "(if truthy name then name else PyStr (''Contract_'' @ str_nat i @ ''.sol''))
                  = PyStr s"
    using Cons.prems(1) entry unfolding s_def by auto
  show ?case
    unfolding entry using ih
    by (simp add: target code write_file_accepted [OF here] then_do_ok)
qed

subsection \<open>The example texts\<close>

lemma bundle_text_braces: "bundle_text ''{}'' = ''{}''"
  by (simp add: bundle_text_def strip_def lstrip_def rstrip_def is_space_def
      double_curly_wrapped_def startswith_def endswith_def suffix_def)

lemma example_loads_braces:
  "example_loads ''{}'' = Decoded (PyDict [])" "example_loads (slice_1_m1 ''{}'') = JSONDecodeError"
  by (simp_all add: example_loads_def slice_1_m1_def example_bundle_def clash_bundle_def
      long_integer_def quoted_def)

lemma example_bundle_text:
  "example_bundle \<noteq> []" "\<not> is_single_file_contract example_bundle"
  "bundle_text example_bundle = example_bundle"
  by (simp_all add: example_bundle_def quoted_def is_single_file_contract_def bundle_text_def
      strip_def lstrip_def rstrip_def is_space_def startswith_def endswith_def suffix_def
      double_curly_wrapped_def)

lemma example_bundle_braced:
  "startswith example_bundle ''{''" "endswith example_bundle ''}''"
  "\<not> double_curly_wrapped example_bundle"
  by (simp_all add: example_bundle_def quoted_def lstrip_def rstrip_def is_space_def
      startswith_def endswith_def suffix_def double_curly_wrapped_def)

lemma example_loads_bundle:
  "example_loads example_bundle
     = Decoded (PyDict [(''A.sol'', PyDict [(''content'', PyStr ''a'')]), ([], PyStr ''b'')])"
  by (simp add: example_loads_def) (simp add: example_bundle_def quoted_def)

lemma example_bundle_parsed:
  "parse_source_code_object example_loads example_bundle
     = Inr (PyDict [(''A.sol'', PyDict [(''content'', PyStr ''a'')]), ([], PyStr ''b'')])"
  by (simp add: parse_source_code_object_def example_bundle_text json_or_none_def py_or_def
      example_loads_bundle)

lemma example_bundle_map:
  "sources_to_map (PyDict [(''A.sol'', PyDict [(''content'', PyStr ''a'')]), ([], PyStr ''b'')])
     = Inr [(PyStr ''A.sol'', PyStr ''a''), (PyStr [], PyStr ''b'')]"
  by (simp add: sources_to_map_def key_eq_def)

lemma clash_bundle_text:
  "clash_bundle \<noteq> []" "\<not> is_single_file_contract clash_bundle"
  "bundle_text clash_bundle = clash_bundle"
  by (simp_all add: clash_bundle_def quoted_def is_single_file_contract_def bundle_text_def
      strip_def lstrip_def rstrip_def is_space_def startswith_def endswith_def suffix_def
      double_curly_wrapped_def)

lemma example_loads_clash:
  "example_loads clash_bundle = Decoded (PyDict [(''a'', PyStr ''x''), (''a/b.sol'', PyStr ''y'')])"
  by (simp add: example_loads_def) (simp add: example_bundle_def clash_bundle_def quoted_def)

lemma clash_bundle_parsed:
  "parse_source_code_object example_loads clash_bundle
     = Inr (PyDict [(''a'', PyStr ''x''), (''a/b.sol'', PyStr ''y'')])"
  by (simp add: parse_source_code_object_def clash_bundle_text json_or_none_def py_or_def
      example_loads_clash)

lemma clash_bundle_map:
  "sources_to_map (PyDict [(''a'', PyStr ''x''), (''a/b.sol'', PyStr ''y'')])
     = Inr [(PyStr ''a'', PyStr ''x''), (PyStr ''a/b.sol'', PyStr ''y'')]"
  by (simp add: sources_to_map_def key_eq_def)

lemma long_integer_text:
  "\<not> is_single_file_contract long_integer" "bundle_text long_integer = long_integer"
proof -
  have shape: "long_integer \<noteq> []" "hd long_integer = CHR ''[''" "last long_integer = CHR '']''"
    by (simp_all add: long_integer_def)
  then have trimmed: "strip long_integer = long_integer" "lstrip long_integer = long_integer"
    by (simp_all add: strip_no_space lstrip_no_space is_space_def)
  from shape obtain t where r: "long_integer = CHR ''['' # t"
    by (metis list.collapse)
  show "\<not> is_single_file_contract long_integer"
    unfolding is_single_file_contract_def Let_def trimmed
    by (simp add: r startswith_def)
  have "\<not> double_curly_wrapped long_integer"
    unfolding double_curly_wrapped_def trimmed by (simp add: r startswith_def)
  then show "bundle_text long_integer = long_integer"
    unfolding bundle_text_def Let_def trimmed by simp
qed

lemma example_loads_long_integer:
  "example_loads long_integer
     = Raises (ValueError (''Exceeds the limit (4300 digits) for integer string conversion: ''
                 @ ''value has 4301 digits; use sys.set_int_max_str_digits() ''
                 @ ''to increase the limit''))"
proof -
  have "long_integer \<noteq> ''{}''" "long_integer \<noteq> example_bundle" "long_integer \<noteq> clash_bundle"
    by (simp_all add: long_integer_def example_bundle_def clash_bundle_def)
  then show ?thesis
    unfolding example_loads_def by (simp only: if_False if_True refl)
qed

lemma crlf_text:
  "\<not> is_single_file_contract ([CHR 0x0D, CHR 0x0A] @ ''contract X {}'')"
  "bundle_text ([CHR 0x0D, CHR 0x0A] @ ''contract X {}'') = ''contract X {}''"
  "example_loads ''contract X {}'' = JSONDecodeError"
  "example_loads (slice_1_m1 ''contract X {}'') = JSONDecodeError"
  by (simp_all add: is_single_file_contract_def bundle_text_def strip_def lstrip_def rstrip_def
      is_space_def startswith_def endswith_def suffix_def double_curly_wrapped_def
      example_loads_def slice_1_m1_def example_bundle_def clash_bundle_def long_integer_def
      quoted_def)

subsection \<open>Lower case\<close>

lemma upper_has_bit5_clear: "is_upper (Char x1 x2 x3 x4 x5 x6 x7 x8) \<Longrightarrow> \<not> x6"
  unfolding is_upper_def Let_def of_char_Char
  by (cases x7; cases x8; cases x6; simp; cases x1; cases x2; cases x3; cases x4; cases x5; simp)

lemma lower_char_idem: "lower_char (lower_char c) = lower_char c"
proof (cases "is_upper c")
  case True
  have "\<not> is_upper (Char (digit0 c) (digit1 c) (digit2 c) (digit3 c) (digit4 c) True
                      (digit6 c) (digit7 c))"
    using upper_has_bit5_clear by blast
  with True show ?thesis
    by (simp add: lower_char_def)
next
  case False
  then show ?thesis
    by (simp add: lower_char_def)
qed

lemma lower_idem [simp]: "lower (lower s) = lower s"
  by (simp add: lower_def lower_char_idem)

lemma lower_Nil_iff [simp]: "lower s = [] \<longleftrightarrow> s = []"
  by (simp add: lower_def)

subsection \<open>Requests in a trace\<close>

lemma http_gets_simps [simp]:
  "http_gets [] = []"
  "http_gets (xs @ ys) = http_gets xs @ http_gets ys"
  "http_gets (Http_get u # xs) = u # http_gets xs"
  "http_gets (Print m # xs) = http_gets xs"
  "http_gets (Mkdir_parents p # xs) = http_gets xs"
  "http_gets (Write_text p c # xs) = http_gets xs"
  by (simp_all add: http_gets_def)

lemma http_gets_write_file [simp]: "http_gets (fst (write_file os p c)) = []"
  by (simp add: write_file_def split: pyval.splits option.splits)

lemma http_gets_then_do:
  assumes "http_gets (fst m) = []" "\<And>x. http_gets (fst (f x)) = []"
  shows "http_gets (fst (then_do m f)) = []"
proof (cases m)
  case (Pair es r)
  with assms show ?thesis
    by (cases r) simp_all
qed

lemma http_gets_write_entries [simp]: "http_gets (fst (write_entries os outdir i files)) = []"
proof (induction files arbitrary: i)
  case Nil
  show ?case by simp
next
  case (Cons entry rest)
  obtain name code where entry: "entry = (name, code)"
    by (cases entry)
  show ?case
    unfolding entry write_entries.simps
    by (rule http_gets_then_do) (simp_all add: Cons.IH split: pyval.splits)
qed

lemma http_gets_write_sources [simp]:
  "http_gets (fst (write_sources E result outdir abi meta inc exc)) = []"
  unfolding write_sources_def Let_def
  by (auto intro!: http_gets_then_do split: sum.splits)

lemma fetch_source_events:
  assumes "fetch_source E a c k = (es, r)"
  shows "(es = [] \<and> (\<exists>e. r = Inl e)) \<or> es = [Http_get (api_url c a k)]"
  using assms
  by (auto simp add: fetch_source_def Let_def split: if_splits http_reply.splits list.splits)

lemma fetch_source_ok:
  assumes "fetch_source E a c k = (es, Inr r)"
  shows "es = [Http_get (api_url c a k)]"
  using fetch_source_events [OF assms] by auto

subsection \<open>One call of the recursive downloader\<close>

lemma download_step_None:
  "download_step E address chainid outdir opts None
     = download_step E address chainid outdir opts (Some {})"
  by (simp add: download_step_def)

lemma download_recursive_None:
  "download_contract_source_recursive n E address chainid outdir opts None
     = download_contract_source_recursive n E address chainid outdir opts (Some {})"
  by (cases n) (simp_all add: download_step_None)

lemma write_sources_no_requests:
  "write_sources E result outdir abi meta inc exc = (es, r) \<Longrightarrow> http_gets es = []"
  using http_gets_write_sources [of E result outdir abi meta inc exc] by simp

lemma download_step_Return:
  assumes "download_step E address chainid outdir opts (Some V) = Return es v r"
  shows "(lower address \<in> V \<and> es = [Print (Skipping (lower address))] \<and> v = V \<and> r = Inr ())
         \<or> (lower address \<notin> V \<and> v = insert (lower address) V
             \<and> (http_gets es = []
                \<or> http_gets es = [api_url chainid (lower address) (apikey opts)]))"
proof (cases "lower address \<in> V")
  case True
  with assms show ?thesis
    by (simp add: download_step_def)
next
  case False
  obtain es1 r1 where f: "fetch_source E (lower address) chainid (apikey opts) = (es1, r1)"
    by (cases "fetch_source E (lower address) chainid (apikey opts)")
  from fetch_source_events [OF f]
  have g: "http_gets es1 = [] \<or> http_gets es1 = [api_url chainid (lower address) (apikey opts)]"
    by auto
  from assms False f g show ?thesis
    by (auto simp add: download_step_def Let_def dest: write_sources_no_requests
        split: sum.splits prod.splits if_splits)
qed

lemma download_step_Recurse:
  assumes "download_step E address chainid outdir opts (Some V) = Recurse es impl dir v"
  shows "lower address \<notin> V \<and> v = insert (lower address) V
         \<and> http_gets es = [api_url chainid (lower address) (apikey opts)]
         \<and> (\<exists>es1 result. fetch_source E (lower address) chainid (apikey opts) = (es1, Inr result)
                \<and> proxy_target result = Some impl)"
proof (cases "lower address \<in> V")
  case True
  with assms show ?thesis
    by (simp add: download_step_def)
next
  case False
  obtain es1 r1 where f: "fetch_source E (lower address) chainid (apikey opts) = (es1, r1)"
    by (cases "fetch_source E (lower address) chainid (apikey opts)")
  from assms False f obtain result where r1: "r1 = Inr result"
    by (cases r1) (auto simp add: download_step_def Let_def)
  from fetch_source_ok f r1
  have g: "es1 = [Http_get (api_url chainid (lower address) (apikey opts))]"
    by blast
  from assms False f r1 g show ?thesis
    by (auto simp add: download_step_def Let_def proxy_target_def get_or_def
        dest: write_sources_no_requests
        split: sum.splits prod.splits if_splits option.splits)
qed

lemma proxy_target_lower: "proxy_target r = Some i \<Longrightarrow> lower i = i"
  by (auto simp add: proxy_target_def split: option.splits if_splits)

lemma download_recursive_returns:
  assumes fin: "finite R"
    and closed: "\<forall>a\<in>R. \<forall>es r i. fetch_source E a chainid (apikey opts) = (es, Inr r)
                   \<longrightarrow> proxy_target r = Some i \<longrightarrow> i \<in> R"
  shows "card (R - V) < n \<Longrightarrow> lower address \<in> R \<Longrightarrow>
         \<exists>es v r as.
           download_contract_source_recursive n E address chainid outdir opts (Some V)
             = Some (es, v, r)
           \<and> http_gets es = map (\<lambda>a. api_url chainid a (apikey opts)) as
           \<and> distinct as \<and> set as \<subseteq> R - V
           \<and> V \<subseteq> v \<and> v \<subseteq> V \<union> R \<and> lower address \<in> v
           \<and> (lower address \<in> V \<longrightarrow> http_gets es = [] \<and> v = V)"
proof (induction n arbitrary: address outdir V)
  case 0
  then show ?case by simp
next
  case (Suc n)
  let ?a = "lower address"
  show ?case
  proof (cases "download_step E address chainid outdir opts (Some V)")
    case (Return es v r)
    from download_step_Return [OF Return]
    consider (skip) "?a \<in> V" "v = V"  "es = [Print (Skipping ?a)]"
      | (quiet) "?a \<notin> V" "v = insert ?a V" "http_gets es = []"
      | (one) "?a \<notin> V" "v = insert ?a V"
          "http_gets es = [api_url chainid ?a (apikey opts)]"
      by blast
    then show ?thesis
    proof cases
      case skip
      then show ?thesis
        using Return by (intro exI [of _ es] exI [of _ v] exI [of _ r] exI [of _ "[]"]) auto
    next
      case quiet
      then show ?thesis
        using Return Suc.prems
        by (intro exI [of _ es] exI [of _ v] exI [of _ r] exI [of _ "[]"]) auto
    next
      case one
      then show ?thesis
        using Return Suc.prems
        by (intro exI [of _ es] exI [of _ v] exI [of _ r] exI [of _ "[?a]"]) auto
    qed
  next
    case (Recurse es impl dir v)
    from download_step_Recurse [OF Recurse]
    obtain es1 result where new: "?a \<notin> V" and v: "v = insert ?a V"
      and gets: "http_gets es = [api_url chainid ?a (apikey opts)]"
      and fetched: "fetch_source E ?a chainid (apikey opts) = (es1, Inr result)"
      and target: "proxy_target result = Some impl"
      by blast
    from closed Suc.prems(2) fetched target have impl: "impl \<in> R"
      by blast
    have low: "lower impl = impl"
      using target by (rule proxy_target_lower)
    have "card (R - v) < card (R - V)"
      unfolding v using fin new Suc.prems(2)
      by (intro psubset_card_mono) auto
    with Suc.prems(1) have less: "card (R - v) < n"
      by simp
    from Suc.IH [OF less, of impl dir] impl low
    obtain es' v' r' as' where
      run: "download_contract_source_recursive n E impl chainid dir opts (Some v)
              = Some (es', v', r')"
      and gets': "http_gets es' = map (\<lambda>a. api_url chainid a (apikey opts)) as'"
      and dist: "distinct as'" and sub: "set as' \<subseteq> R - v"
      and mono: "v \<subseteq> v'" and bound: "v' \<subseteq> v \<union> R"
      by auto
    have "download_contract_source_recursive (Suc n) E address chainid outdir opts (Some V)
            = Some (es @ es', v', r')"
      using Recurse run by simp
    moreover have "http_gets (es @ es') = map (\<lambda>a. api_url chainid a (apikey opts)) (?a # as')"
      using gets gets' by simp
    moreover have "distinct (?a # as')"
      using dist sub v by auto
    moreover have "set (?a # as') \<subseteq> R - V"
      using sub v new Suc.prems(2) by auto
    moreover have "V \<subseteq> v'" "v' \<subseteq> V \<union> R" "?a \<in> v'"
      using mono bound v Suc.prems(2) by auto
    moreover have "?a \<in> V \<longrightarrow> http_gets (es @ es') = [] \<and> v' = V"
      using new by simp
    ultimately show ?thesis
      by blast
  qed
qed

subsection \<open>The example runs\<close>

lemma api_url_inj [simp]: "api_url c a k = api_url c b k \<longleftrightarrow> a = b"
  by (simp add: api_url_def)

lemma lower_examples:
  "lower ''0xAA'' = ''0xaa''" "lower ''0xBB'' = ''0xbb''"
  "lower ''0xaa'' = ''0xaa''" "lower ''0xbb'' = ''0xbb''"
  "lower ''0xcc'' = ''0xcc''" "lower ''0xdd'' = ''0xdd''" "lower ''0xee'' = ''0xee''"
  "lower ''0X0000000000000000000000000000000000000000''
     = ''0x0000000000000000000000000000000000000000''"
  by (simp_all add: lower_def lower_char_def is_upper_def)

lemma fetch_examples:
  "fetch_source example_env ''0xaa'' 1 ''KEY'' = ([Http_get (api_url 1 ''0xaa'' ''KEY'')], Inr proxy_a)"
  "fetch_source example_env ''0xbb'' 1 ''KEY'' = ([Http_get (api_url 1 ''0xbb'' ''KEY'')], Inr proxy_b)"
  "fetch_source example_env ''0xcc'' 1 ''KEY''
     = ([Http_get (api_url 1 ''0xcc'' ''KEY'')], Inr unverified_proxy)"
  "fetch_source example_env ''0xee'' 1 ''KEY''
     = ([Http_get (api_url 1 ''0xee'' ''KEY'')], Inr capital_zero_proxy)"
  by (simp_all add: fetch_source_def example_env_def example_http_def)

lemma write_examples:
  "write_sources example_env proxy_a outdir False False None None
     = ([Mkdir_parents (Join outdir ''ProxyA.sol''),
         Write_text (Join outdir ''ProxyA.sol'') ''pragma solidity ^0.8.0;'',
         Print (Wrote (Join outdir ''ProxyA.sol''))], Inr ())"
  "write_sources example_env proxy_b outdir False False None None
     = ([Mkdir_parents (Join outdir ''LogicB.sol''),
         Write_text (Join outdir ''LogicB.sol'') ''// logic'',
         Print (Wrote (Join outdir ''LogicB.sol''))], Inr ())"
  "write_sources example_env capital_zero_proxy outdir False False None None
     = ([Mkdir_parents (Join outdir ''Zero.sol''),
         Write_text (Join outdir ''Zero.sol'') ''pragma solidity ^0.8.0;'',
         Print (Wrote (Join outdir ''Zero.sol''))], Inr ())"
  "write_sources example_env unverified_proxy outdir False False None None
     = ([], Inl (RuntimeError ''Contract is not verified or has no source''))"
  by (simp_all add: write_sources_def get_or_def proxy_a_def proxy_b_def capital_zero_proxy_def
      unverified_proxy_def is_single_file_contract_def lstrip_def is_space_def startswith_def
      write_file_def example_env_def)

lemma proxy_target_examples:
  "proxy_target proxy_a = Some ''0xbb''" "proxy_target proxy_b = Some ''0xaa''"
  by (simp_all add: proxy_target_def proxy_a_def proxy_b_def lower_examples)

lemma step_examples:
  "download_step example_env ''0xAA'' 1 (Path ''out'') example_options None
     = Recurse
         [Print (Downloading ''0xaa'' 1), Http_get (api_url 1 ''0xaa'' ''KEY''),
          Mkdir_parents (Join (Join (Path ''out'') ''ProxyA-0xaa'') ''ProxyA.sol''),
          Write_text (Join (Join (Path ''out'') ''ProxyA-0xaa'') ''ProxyA.sol'')
            ''pragma solidity ^0.8.0;'',
          Print (Wrote (Join (Join (Path ''out'') ''ProxyA-0xaa'') ''ProxyA.sol'')),
          Print (DetectedProxy ''0xbb'')]
         ''0xbb'' (Join (Join (Path ''out'') ''ProxyA-0xaa'') ''implementation-0xbb'') {''0xaa''}"
  "download_step example_env ''0xbb'' 1 outdir example_options (Some {''0xaa''})
     = Recurse
         [Print (Downloading ''0xbb'' 1), Http_get (api_url 1 ''0xbb'' ''KEY''),
          Mkdir_parents (Join (Join outdir ''LogicB-0xbb'') ''LogicB.sol''),
          Write_text (Join (Join outdir ''LogicB-0xbb'') ''LogicB.sol'') ''// logic'',
          Print (Wrote (Join (Join outdir ''LogicB-0xbb'') ''LogicB.sol'')),
          Print (DetectedProxy ''0xaa'')]
         ''0xaa'' (Join (Join outdir ''LogicB-0xbb'') ''implementation-0xaa'') {''0xbb'', ''0xaa''}"
  "download_step example_env ''0xaa'' 1 outdir' example_options (Some {''0xbb'', ''0xaa''})
     = Return [Print (Skipping ''0xaa'')] {''0xbb'', ''0xaa''} (Inr ())"
  "download_step example_env ''0xcc'' 1 (Path ''out'') example_options None
     = Return [Print (Downloading ''0xcc'' 1), Http_get (api_url 1 ''0xcc'' ''KEY'')] {''0xcc''}
         (Inl (RuntimeError ''Contract is not verified or has no source''))"
  "download_step example_env ''0xee'' 1 (Path ''out'') example_options None
     = Return
         [Print (Downloading ''0xee'' 1), Http_get (api_url 1 ''0xee'' ''KEY''),
          Mkdir_parents (Join (Join (Path ''out'') ''Zero-0xee'') ''Zero.sol''),
          Write_text (Join (Join (Path ''out'') ''Zero-0xee'') ''Zero.sol'')
            ''pragma solidity ^0.8.0;'',
          Print (Wrote (Join (Join (Path ''out'') ''Zero-0xee'') ''Zero.sol''))]
         {''0xee''} (Inr ())"
  by (simp_all add: download_step_def Let_def lower_examples example_options_def fetch_examples
      write_examples)
    (simp_all add: get_or_def proxy_a_def proxy_b_def capital_zero_proxy_def lower_examples)

lemma two_hop_run:
  "download_contract_source_recursive (Suc (Suc (Suc 0))) example_env ''0xAA'' 1 (Path ''out'')
       example_options None
     = Some
         ([Print (Downloading ''0xaa'' 1), Http_get (api_url 1 ''0xaa'' ''KEY''),
           Mkdir_parents (Join (Join (Path ''out'') ''ProxyA-0xaa'') ''ProxyA.sol''),
           Write_text (Join (Join (Path ''out'') ''ProxyA-0xaa'') ''ProxyA.sol'')
             ''pragma solidity ^0.8.0;'',
           Print (Wrote (Join (Join (Path ''out'') ''ProxyA-0xaa'') ''ProxyA.sol'')),
           Print (DetectedProxy ''0xbb''),
           Print (Downloading ''0xbb'' 1), Http_get (api_url 1 ''0xbb'' ''KEY''),
           Mkdir_parents
             (Join (Join (Join (Join (Path ''out'') ''ProxyA-0xaa'') ''implementation-0xbb'')
                ''LogicB-0xbb'') ''LogicB.sol''),
           Write_text
             (Join (Join (Join (Join (Path ''out'') ''ProxyA-0xaa'') ''implementation-0xbb'')
                ''LogicB-0xbb'') ''LogicB.sol'') ''// logic'',
           Print (Wrote
             (Join (Join (Join (Join (Path ''out'') ''ProxyA-0xaa'') ''implementation-0xbb'')
                ''LogicB-0xbb'') ''LogicB.sol'')),
           Print (DetectedProxy ''0xaa''),
           Print (Skipping ''0xaa'')],
          {''0xbb'', ''0xaa''}, Inr ())"
  by (simp add: step_examples)

section \<open>The metadata filter\<close>

text \<open>
  Claim C7. For every record and key \<open>A\<close>, filtering with the include-set \<open>{A}\<close> and no
  exclude-set gives the same result as filtering with no include-set and the
  exclude-set of all the other keys of the record; with neither set given, the filter
  returns the record unchanged.
\<close>

theorem filter_metadata_include_exclude_dual:
  "filter_metadata metadata (Some {A}) None
     = filter_metadata metadata None (Some (fst ` set metadata - {A}))
   \<and> filter_metadata metadata None None = metadata"
proof -
  have "filter (\<lambda>(k, v). k \<in> {A}) metadata
          = filter (\<lambda>(k, v). k \<notin> fst ` set metadata - {A}) metadata"
    by (rule filter_cong) force+
  then show ?thesis
    by (simp add: filter_metadata_def)
qed

text \<open>
  Claim C10. When both an include-set and an exclude-set are passed, the filter does
  not fail: the include-set decides and the exclude-set is ignored, so the result is
  that of filtering with the include-set alone.
\<close>

theorem filter_metadata_include_wins:
  "filter_metadata metadata (Some inc) (Some exc) = filter_metadata metadata (Some inc) None
   \<and> filter_metadata metadata (Some inc) (Some exc) = filter (\<lambda>(k, v). k \<in> inc) metadata"
  by (simp add: filter_metadata_def)

section \<open>The source writer on a contract without source\<close>

text \<open>
  Claim C9. For every record whose \<open>SourceCode\<close> field is absent or empty, the source
  writer raises the "no source" error and does nothing else: no directory, no source
  file, no \<open>abi.json\<close>, no \<open>contract_metadata.json\<close>, whatever the options are.
\<close>

theorem write_sources_no_source:
  assumes "map_of result ''SourceCode'' = None \<or> map_of result ''SourceCode'' = Some []"
  shows "write_sources E result outdir abi meta inc exc
           = ([], Inl (RuntimeError ''Contract is not verified or has no source''))"
proof -
  from assms have "get_or result ''SourceCode'' '''' = []"
    by (auto simp add: get_or_def)
  then show ?thesis
    by (simp add: write_sources_def)
qed

theorem write_sources_no_source_witness:
  "map_of unverified_proxy ''SourceCode'' = None
   \<and> write_sources example_env unverified_proxy (Path ''out'') True True None (Some {''ABI''})
       = ([], Inl (RuntimeError ''Contract is not verified or has no source''))
   \<and> map_of [(''SourceCode'', [])] ''SourceCode'' = Some []
   \<and> write_sources example_env [(''SourceCode'', [])] (Path ''out'') True True None None
       = ([], Inl (RuntimeError ''Contract is not verified or has no source''))"
proof -
  have a: "map_of unverified_proxy ''SourceCode'' = None"
    by (simp add: unverified_proxy_def)
  have b: "map_of [(''SourceCode'', [])] ''SourceCode'' = Some ([] :: string)"
    by simp
  show ?thesis
    using a b
      write_sources_no_source [of unverified_proxy example_env "Path ''out''" True True None
        "Some {''ABI''}"]
      write_sources_no_source [of "[(''SourceCode'', [])]" example_env "Path ''out''" True True
        None None]
    by simp
qed

section \<open>An address already visited\<close>

text \<open>
  Claim C8. For every address whose lower-cased form is already in the visited set
  passed to the recursive downloader, the call returns at once, without an error:
  it prints the skip notice and does nothing else (no request, no file), and the
  visited set is the one it was given.
\<close>

theorem visited_address_is_skipped:
  assumes "lower address \<in> visited"
  shows "download_contract_source_recursive (Suc n) E address chainid outdir opts (Some visited)
           = Some ([Print (Skipping (lower address))], visited, Inr ())"
  using assms by (simp add: download_step_def)

theorem visited_address_is_skipped_witness:
  "lower ''0xAA'' \<in> {''0xaa''}
   \<and> download_contract_source_recursive (Suc 0) example_env ''0xAA'' 1 (Path ''out'')
         example_options (Some {''0xaa''})
       = Some ([Print (Skipping ''0xaa'')], {''0xaa''}, Inr ())"
proof -
  have l: "lower ''0xAA'' = ''0xaa''"
    by (simp add: lower_def lower_char_def is_upper_def)
  then have m: "lower ''0xAA'' \<in> {''0xaa''}"
    by simp
  show ?thesis
    using m l visited_address_is_skipped [OF m, of 0 example_env 1 "Path ''out''" example_options]
    by simp
qed

section \<open>Single-file sources\<close>

text \<open>
  A source whose trimmed text starts with \<open>pragma\<close>, \<open>//\<close> or \<open>/*\<close> is written as one
  source file, named after the contract (\<open>Contract\<close> when the name is missing or empty)
  with the suffix \<open>.sol\<close>, its content the blob as it came; the side files asked for
  follow, and the JSON decoder plays no part. This holds when the operating system
  accepts the files.
\<close>

lemma single_file_sources_written:
  assumes src: "map_of result ''SourceCode'' = Some blob"
    and single: "startswith (strip blob) ''pragma'' \<or> startswith (strip blob) ''//''
                 \<or> startswith (strip blob) ''/*''"
    and ok: "accepted E
               ((Join outdir ((if get_or result ''ContractName'' [] = [] then ''Contract''
                               else get_or result ''ContractName'' []) @ ''.sol''), blob)
                # side_writes E result outdir abi meta inc exc)"
  shows "writes (fst (write_sources E result outdir abi meta inc exc))
           = (Join outdir ((if get_or result ''ContractName'' [] = [] then ''Contract''
                            else get_or result ''ContractName'' []) @ ''.sol''), blob)
             # side_writes E result outdir abi meta inc exc
         \<and> snd (write_sources E result outdir abi meta inc exc) = Inr ()
         \<and> write_sources (E\<lparr>loads := decode\<rparr>) result outdir abi meta inc exc
             = write_sources E result outdir abi meta inc exc"
proof -
  from single have one: "is_single_file_contract blob"
    unfolding is_single_file_contract_def Let_def using startswith_strip by blast
  from single have "strip blob \<noteq> []"
    by (auto simp add: startswith_def)
  then have ne: "blob \<noteq> []"
    by (auto simp add: strip_def lstrip_def rstrip_def)
  from src have get: "get_or result ''SourceCode'' '''' = blob"
    by (simp add: get_or_def)
  have name: "(case map_of result ''ContractName'' of
                 Some n \<Rightarrow> if n = [] then ''Contract'' else n | None \<Rightarrow> ''Contract'')
              = (if get_or result ''ContractName'' [] = [] then ''Contract''
                 else get_or result ''ContractName'' [])"
    by (simp add: get_or_def split: option.splits)
  define side where "side = then_do
      (if abi
       then write_file (os_error E) (Join outdir ''abi.json'') (PyStr (get_or result ''ABI'' ''''))
       else ([], Inr ()))
      (\<lambda>_. if meta
           then write_file (os_error E) (Join outdir ''contract_metadata.json'')
                  (PyStr (dumps E (filter_metadata result inc exc)))
           else ([], Inr ()))"
  define p where "p = Join outdir ((if get_or result ''ContractName'' [] = [] then ''Contract''
                            else get_or result ''ContractName'' []) @ ''.sol'')"
  from ok have okp: "os_error E (Mkdir_parents p) = None" "os_error E (Write_text p blob) = None"
    and oks: "accepted E (side_writes E result outdir abi meta inc exc)"
    by (simp_all add: accepted_def p_def)
  have sok: "snd side = Inr ()"
    unfolding side_def using oks by (rule side_files(3))
  then have sw: "writes (fst side) = side_writes E result outdir abi meta inc exc"
    unfolding side_def by (rule side_files(2))
  have ws: "write_sources E result outdir abi meta inc exc
      = then_do (write_file (os_error E) p (PyStr blob)) (\<lambda>_. side)"
    unfolding write_sources_def Let_def get name side_def p_def using one ne by simp
  have ws': "write_sources (E\<lparr>loads := decode\<rparr>) result outdir abi meta inc exc
      = then_do (write_file (os_error E) p (PyStr blob)) (\<lambda>_. side)"
    unfolding write_sources_def Let_def get name side_def p_def using one ne by simp
  have "writes (fst (then_do (write_file (os_error E) p (PyStr blob)) (\<lambda>_. side)))
          = (p, blob) # side_writes E result outdir abi meta inc exc"
    by (simp add: write_file_accepted [OF okp] sw)
  moreover have "snd (then_do (write_file (os_error E) p (PyStr blob)) (\<lambda>_. side)) = Inr ()"
    by (simp add: write_file_accepted [OF okp] sok)
  ultimately show ?thesis
    unfolding ws ws' p_def by simp
qed

text \<open>
  Claim C4. A source that starts with a carriage return and line feed is meant to
  be treated as one inline source file too, and the code has a test for it. The
  test is made on the left-trimmed text, from which the carriage return and line
  feed are already gone, so it never succeeds: single-file detection is decided by
  the other three tests alone. The source made of a carriage return, a line feed
  and \<open>contract X {}\<close> is therefore not written as \<open>X.sol\<close>: it goes to the bundle
  parser and ends in the decode error, with no file written.
\<close>

theorem crlf_source_is_not_single_file:
  "(\<forall>src. is_single_file_contract src
            = (startswith (lstrip src) ''pragma'' \<or> startswith (lstrip src) ''//''
               \<or> startswith (lstrip src) ''/*''))
   \<and> map_of crlf_contract ''SourceCode'' = Some ([CHR 0x0D, CHR 0x0A] @ ''contract X {}'')
   \<and> \<not> is_single_file_contract ([CHR 0x0D, CHR 0x0A] @ ''contract X {}'')
   \<and> write_sources example_env crlf_contract (Path ''out'') False False None None
       = ([], Inl (RuntimeError ''Could not decode SourceCode JSON bundle''))"
proof -
  have dead: "is_single_file_contract src
            = (startswith (lstrip src) ''pragma'' \<or> startswith (lstrip src) ''//''
               \<or> startswith (lstrip src) ''/*'')" for src
    unfolding is_single_file_contract_def Let_def using crlf_test_never_holds [of src] by simp
  have src: "map_of crlf_contract ''SourceCode'' = Some ([CHR 0x0D, CHR 0x0A] @ ''contract X {}'')"
    by (simp add: crlf_contract_def)
  then have get: "get_or crlf_contract ''SourceCode'' ''''
                    = [CHR 0x0D, CHR 0x0A] @ ''contract X {}''"
    by (simp add: get_or_def)
  have parse: "parse_source_code_object example_loads ([CHR 0x0D, CHR 0x0A] @ ''contract X {}'')
                 = Inl (RuntimeError ''Could not decode SourceCode JSON bundle'')"
    unfolding parse_source_code_object_def Let_def crlf_text(2)
    by (simp add: json_or_none_def py_or_def crlf_text(3,4))
  have run: "write_sources example_env crlf_contract (Path ''out'') False False None None
       = ([], Inl (RuntimeError ''Could not decode SourceCode JSON bundle''))"
    unfolding write_sources_def Let_def get
    using crlf_text(1) parse by (simp add: example_env_def)
  from dead src crlf_text(1) run show ?thesis
    by blast
qed

section \<open>Decoding a bundle\<close>

text \<open>
  Claim C3, as the code has it. The parser makes up to two decode attempts: on the
  trimmed (and, if double-braced, unwrapped) text, and, when that gives no non-empty
  value, on that text without its first and last character. An exception of the
  decoder other than \<open>JSONDecodeError\<close>, raised by an attempt that is made, leaves the
  parser unchanged. When no such exception is raised, the parser raises the decode
  error exactly when neither attempt gives it a non-empty value: each of the two
  either raises \<open>JSONDecodeError\<close> or returns an empty, zero, false or null value. In
  every other case parsing goes on without that error.
\<close>

theorem decode_error_iff_no_truthy_value:
  "(decode (bundle_text blob) = Raises e \<longrightarrow> parse_source_code_object decode blob = Inl e)
   \<and> (attempt_empty decode (bundle_text blob)
        \<and> decode (slice_1_m1 (bundle_text blob)) = Raises e
      \<longrightarrow> parse_source_code_object decode blob = Inl e)
   \<and> ((\<forall>x. decode (bundle_text blob) \<noteq> Raises x)
        \<and> (attempt_empty decode (bundle_text blob)
             \<longrightarrow> (\<forall>x. decode (slice_1_m1 (bundle_text blob)) \<noteq> Raises x))
      \<longrightarrow> (parse_source_code_object decode blob
             = Inl (RuntimeError ''Could not decode SourceCode JSON bundle''))
          = (attempt_empty decode (bundle_text blob)
             \<and> attempt_empty decode (slice_1_m1 (bundle_text blob))))"
proof (intro conjI impI)
  assume "decode (bundle_text blob) = Raises e"
  then show "parse_source_code_object decode blob = Inl e"
    by (simp add: parse_source_code_object_def json_or_none_def py_or_def)
next
  assume "attempt_empty decode (bundle_text blob)
            \<and> decode (slice_1_m1 (bundle_text blob)) = Raises e"
  then show "parse_source_code_object decode blob = Inl e"
    by (auto simp add: parse_source_code_object_def json_or_none_def py_or_def attempt_empty_def
        split: decoded.splits)
next
  assume quiet: "(\<forall>x. decode (bundle_text blob) \<noteq> Raises x)
        \<and> (attempt_empty decode (bundle_text blob)
             \<longrightarrow> (\<forall>x. decode (slice_1_m1 (bundle_text blob)) \<noteq> Raises x))"
  show "(parse_source_code_object decode blob
             = Inl (RuntimeError ''Could not decode SourceCode JSON bundle''))
          = (attempt_empty decode (bundle_text blob)
             \<and> attempt_empty decode (slice_1_m1 (bundle_text blob)))"
  proof (cases "attempt_empty decode (bundle_text blob)")
    case False
    with quiet obtain v where first: "decode (bundle_text blob) = Decoded v" "truthy v"
      by (cases "decode (bundle_text blob)") (auto simp add: attempt_empty_def)
    then have "\<exists>root. parse_source_code_object decode blob = Inr root"
      by (simp add: parse_source_code_object_def json_or_none_def py_or_def
          split: pyval.splits option.splits)
    with False show ?thesis
      by auto
  next
    case True
    then have first: "py_or (json_or_none decode (bundle_text blob))
                        (json_or_none decode (slice_1_m1 (bundle_text blob)))
                      = json_or_none decode (slice_1_m1 (bundle_text blob))"
      by (cases "decode (bundle_text blob)")
        (simp_all add: attempt_empty_def json_or_none_def py_or_def)
    from True quiet have calm: "\<forall>x. decode (slice_1_m1 (bundle_text blob)) \<noteq> Raises x"
      by blast
    show ?thesis
    proof (cases "attempt_empty decode (slice_1_m1 (bundle_text blob))")
      case True
      then have "parse_source_code_object decode blob
                   = Inl (RuntimeError ''Could not decode SourceCode JSON bundle'')"
        unfolding parse_source_code_object_def Let_def first
        by (cases "decode (slice_1_m1 (bundle_text blob))")
          (simp_all add: attempt_empty_def json_or_none_def)
      with True \<open>attempt_empty decode (bundle_text blob)\<close> show ?thesis
        by simp
    next
      case False
      with calm obtain v where second: "decode (slice_1_m1 (bundle_text blob)) = Decoded v"
          "truthy v"
        by (cases "decode (slice_1_m1 (bundle_text blob))") (auto simp add: attempt_empty_def)
      then have "\<exists>root. parse_source_code_object decode blob = Inr root"
        unfolding parse_source_code_object_def Let_def first
        by (simp add: json_or_none_def split: pyval.splits option.splits)
      with False show ?thesis
        by auto
    qed
  qed
qed

theorem decode_error_iff_no_truthy_value_witness:
  "attempt_empty example_loads (bundle_text ''{}'')
   \<and> attempt_empty example_loads (slice_1_m1 (bundle_text ''{}''))
   \<and> parse_source_code_object example_loads ''{}''
       = Inl (RuntimeError ''Could not decode SourceCode JSON bundle'')
   \<and> parse_source_code_object example_loads example_bundle
       = Inr (PyDict [(''A.sol'', PyDict [(''content'', PyStr ''a'')]), ([], PyStr ''b'')])
   \<and> parse_source_code_object example_loads long_integer
       = Inl (ValueError (''Exceeds the limit (4300 digits) for integer string conversion: ''
                 @ ''value has 4301 digits; use sys.set_int_max_str_digits() ''
                 @ ''to increase the limit''))"
proof -
  have quiet: "(\<forall>x. example_loads (bundle_text ''{}'') \<noteq> Raises x)
        \<and> (attempt_empty example_loads (bundle_text ''{}'')
             \<longrightarrow> (\<forall>x. example_loads (slice_1_m1 (bundle_text ''{}'')) \<noteq> Raises x))"
    by (simp add: bundle_text_braces example_loads_braces)
  have empty: "attempt_empty example_loads (bundle_text ''{}'')"
      "attempt_empty example_loads (slice_1_m1 (bundle_text ''{}''))"
    by (simp_all add: bundle_text_braces attempt_empty_def example_loads_braces)
  have raised: "example_loads (bundle_text long_integer)
                  = Raises (ValueError (''Exceeds the limit (4300 digits) for integer string conversion: ''
                      @ ''value has 4301 digits; use sys.set_int_max_str_digits() ''
                      @ ''to increase the limit''))"
    by (simp only: long_integer_text example_loads_long_integer)
  from decode_error_iff_no_truthy_value [of example_loads "''{}''"] quiet empty
  have one: "parse_source_code_object example_loads ''{}''
               = Inl (RuntimeError ''Could not decode SourceCode JSON bundle'')"
    by blast
  from decode_error_iff_no_truthy_value [of example_loads long_integer] raised
  have two: "parse_source_code_object example_loads long_integer
       = Inl (ValueError (''Exceeds the limit (4300 digits) for integer string conversion: ''
                 @ ''value has 4301 digits; use sys.set_int_max_str_digits() ''
                 @ ''to increase the limit''))"
    by blast
  from empty one two example_bundle_parsed show ?thesis
    by blast
qed

text \<open>
  The claim as it was stated, with "both decode attempts fail" on the right-hand
  side, is false: on the blob \<open>{}\<close>, which is not a single-file source, the first
  attempt succeeds (with the empty object), and the parser raises the decode error
  all the same.
\<close>

theorem first_decode_succeeds_yet_error_counterexample:
  "\<not> is_single_file_contract ''{}''
   \<and> example_loads (bundle_text ''{}'') = Decoded (PyDict [])
   \<and> \<not> ((parse_source_code_object example_loads ''{}''
          = Inl (RuntimeError ''Could not decode SourceCode JSON bundle''))
        = ((\<nexists>v. example_loads (bundle_text ''{}'') = Decoded v)
           \<and> (\<nexists>v. example_loads (slice_1_m1 (bundle_text ''{}'')) = Decoded v)))"
proof -
  have a: "\<not> is_single_file_contract ''{}''"
    by (simp add: is_single_file_contract_def lstrip_def is_space_def startswith_def)
  have "parse_source_code_object example_loads ''{}''
          = Inl (RuntimeError ''Could not decode SourceCode JSON bundle'')"
    by (simp add: parse_source_code_object_def bundle_text_braces json_or_none_def py_or_def
        example_loads_braces)
  with a show ?thesis
    by (simp add: bundle_text_braces example_loads_braces)
qed

section \<open>Double braces\<close>

text \<open>
  Claim C6. For every text \<open>u\<close> of the form \<open>{...}\<close> that is not itself wrapped in
  double braces (no JSON text is), the input \<open>{u}\<close> is recognised as double-brace
  wrapped, exactly one layer of braces is taken off before decoding, and parsing the
  wrapped input gives the same result as parsing \<open>u\<close>: the same decoded root or the
  same error, hence the same normalised mapping.
\<close>

theorem double_brace_unwraps_once:
  assumes s: "startswith u ''{''" and e: "endswith u ''}''"
    and once: "\<not> double_curly_wrapped u"
  shows "double_curly_wrapped (''{'' @ u @ ''}'')
         \<and> bundle_text (''{'' @ u @ ''}'') = u
         \<and> parse_source_code_object decode (''{'' @ u @ ''}'') = parse_source_code_object decode u
         \<and> (case parse_source_code_object decode (''{'' @ u @ ''}'') of
              Inl err \<Rightarrow> Inl err | Inr parsed \<Rightarrow> sources_to_map parsed)
           = (case parse_source_code_object decode u of
                Inl err \<Rightarrow> Inl err | Inr parsed \<Rightarrow> sources_to_map parsed)"
proof -
  let ?w = "''{'' @ u @ ''}''"
  have ws: "startswith ?w ''{''" "endswith ?w ''}''"
    by (simp_all add: startswith_def endswith_def suffix_def)
  from s obtain r where r: "u = CHR ''{'' # r"
    by (auto simp add: startswith_def prefix_def)
  from e obtain l where l: "u = l @ ''}''"
    by (auto simp add: endswith_def suffix_def)
  have w2: "startswith ?w ''{{''"
    using r by (simp add: startswith_def)
  have w3: "endswith ?w ''}}''"
    using l by (simp add: endswith_def suffix_def)
  have dw: "double_curly_wrapped ?w"
    unfolding double_curly_wrapped_def using strip_braced [OF ws] w2 w3 by simp
  have bw: "bundle_text ?w = u"
    unfolding bundle_text_def Let_def using strip_braced(1) [OF ws] dw strip_braced(1) [OF s e]
    by (simp only: slice_wrapped if_True)
  have bu: "bundle_text u = u"
    unfolding bundle_text_def Let_def using strip_braced(1) [OF s e] once by simp
  have eq: "parse_source_code_object decode ?w = parse_source_code_object decode u"
    unfolding parse_source_code_object_def bw bu ..
  show ?thesis
    using dw bw eq by simp
qed

theorem double_brace_unwraps_once_witness:
  "startswith example_bundle ''{'' \<and> endswith example_bundle ''}''
   \<and> \<not> double_curly_wrapped example_bundle
   \<and> double_curly_wrapped (''{'' @ example_bundle @ ''}'')
   \<and> parse_source_code_object example_loads (''{'' @ example_bundle @ ''}'')
       = Inr (PyDict [(''A.sol'', PyDict [(''content'', PyStr ''a'')]), ([], PyStr ''b'')])
   \<and> parse_source_code_object example_loads example_bundle
       = Inr (PyDict [(''A.sol'', PyDict [(''content'', PyStr ''a'')]), ([], PyStr ''b'')])"
  using example_bundle_braced
    double_brace_unwraps_once [OF example_bundle_braced, of example_loads]
  by (simp add: example_bundle_parsed)

section \<open>Names of the files of a bundle\<close>

text \<open>
  Claim C5. The source writer goes through the entries of the normalised mapping in
  order. An entry whose name is empty or missing is written to \<open>Contract_<i>.sol\<close>, \<open>i\<close>
  being its position counted from 1 among all the entries; an entry with a non-empty
  name is written to that name, unchanged. For any mapping and any operating
  system, the files written are an initial part of the entries so named (a value
  that is not a string, or a file the operating system refuses, stops the loop
  with an error); for a normalised bundle, whose names are strings or missing and
  whose contents are strings, and whose files the operating system accepts, they
  are all the entries, followed by the side files.
\<close>

theorem empty_names_become_numbered:
  assumes src: "map_of result ''SourceCode'' = Some blob"
    and ne: "blob \<noteq> []"
    and multi: "\<not> is_single_file_contract blob"
    and parsed: "parse_source_code_object (loads E) blob = Inr parsed"
    and norm: "sources_to_map parsed = Inr files"
  shows "prefix (writes (fst (write_sources E result outdir abi meta inc exc)))
           (map (\<lambda>(i, name, code).
                    (Join outdir (if truthy name then the_str name
                                  else ''Contract_'' @ str_nat i @ ''.sol''), the_str code))
               (zip [1..<Suc (length files)] files)
             @ side_writes E result outdir abi meta inc exc)
         \<and> ((\<forall>(name, code)\<in>set files.
                (\<exists>s. code = PyStr s) \<and> (truthy name \<longrightarrow> (\<exists>s. name = PyStr s)))
             \<and> accepted E
                 (map (\<lambda>(i, name, code).
                         (Join outdir (if truthy name then the_str name
                                       else ''Contract_'' @ str_nat i @ ''.sol''), the_str code))
                    (zip [1..<Suc (length files)] files)
                  @ side_writes E result outdir abi meta inc exc)
            \<longrightarrow> writes (fst (write_sources E result outdir abi meta inc exc))
                  = map (\<lambda>(i, name, code).
                           (Join outdir (if truthy name then the_str name
                                         else ''Contract_'' @ str_nat i @ ''.sol''), the_str code))
                      (zip [1..<Suc (length files)] files)
                    @ side_writes E result outdir abi meta inc exc
                \<and> snd (write_sources E result outdir abi meta inc exc) = Inr ())"
proof -
  from src have get: "get_or result ''SourceCode'' '''' = blob"
    by (simp add: get_or_def)
  define side where "side = then_do
      (if abi
       then write_file (os_error E) (Join outdir ''abi.json'') (PyStr (get_or result ''ABI'' ''''))
       else ([], Inr ()))
      (\<lambda>_. if meta
           then write_file (os_error E) (Join outdir ''contract_metadata.json'')
                  (PyStr (dumps E (filter_metadata result inc exc)))
           else ([], Inr ()))"
  define expected where "expected = map (\<lambda>(i, name, code).
                    (Join outdir (if truthy name then the_str name
                                  else ''Contract_'' @ str_nat i @ ''.sol''), the_str code))
               (zip [1..<Suc (length files)] files)"
  define entries where "entries = write_entries (os_error E) outdir 1 files"
  have sp: "prefix (writes (fst side)) (side_writes E result outdir abi meta inc exc)"
    unfolding side_def by (rule side_files(1))
  have sf: "writes (fst side) = side_writes E result outdir abi meta inc exc"
    if "snd side = Inr ()"
    using that unfolding side_def by (rule side_files(2))
  have sa: "snd side = Inr ()" if "accepted E (side_writes E result outdir abi meta inc exc)"
    using that unfolding side_def by (rule side_files(3))
  have ws: "write_sources E result outdir abi meta inc exc = then_do entries (\<lambda>_. side)"
    unfolding write_sources_def Let_def get side_def entries_def
    using ne multi parsed norm by simp
  from write_entries_names [of "os_error E" outdir 1 files]
  have pre: "prefix (writes (fst entries)) expected"
    and full: "snd entries = Inr () \<Longrightarrow> writes (fst entries) = expected"
    unfolding expected_def entries_def by simp_all
  have one: "prefix (writes (fst (write_sources E result outdir abi meta inc exc)))
               (expected @ side_writes E result outdir abi meta inc exc)"
  proof (cases "snd entries")
    case (Inl e)
    then have "fst (then_do entries (\<lambda>_. side)) = fst entries"
      by (cases entries) simp
    with pre show ?thesis
      unfolding ws by (simp add: prefix_prefix)
  next
    case (Inr u)
    then have ok: "snd entries = Inr ()"
      by simp
    then show ?thesis
      unfolding ws using full sp by (simp add: then_do_ok)
  qed
  have two: "writes (fst (write_sources E result outdir abi meta inc exc))
               = expected @ side_writes E result outdir abi meta inc exc
             \<and> snd (write_sources E result outdir abi meta inc exc) = Inr ()"
    if typed: "\<forall>(name, code)\<in>set files.
                (\<exists>s. code = PyStr s) \<and> (truthy name \<longrightarrow> (\<exists>s. name = PyStr s))"
      and ok: "accepted E (expected @ side_writes E result outdir abi meta inc exc)"
  proof -
    from ok have oke: "list_all (\<lambda>(p, c). os_error E (Mkdir_parents p) = None
                                   \<and> os_error E (Write_text p c) = None) expected"
      and oks: "accepted E (side_writes E result outdir abi meta inc exc)"
      by (simp_all add: accepted_def)
    from write_entries_typed [OF typed, of "os_error E" outdir 1] oke
    have landed: "snd entries = Inr ()"
      unfolding expected_def entries_def by simp
    from sa [OF oks] have sok: "snd side = Inr ()" .
    from landed sok show ?thesis
      unfolding ws using full sf by (simp add: then_do_ok)
  qed
  from one two show ?thesis
    unfolding expected_def by blast
qed

theorem empty_names_become_numbered_witness:
  "writes (fst (write_sources example_env multi_file (Path ''out'') False False None None))
     = [(Join (Path ''out'') ''A.sol'', ''a''), (Join (Path ''out'') ''Contract_2.sol'', ''b'')]
   \<and> snd (write_sources example_env multi_file (Path ''out'') False False None None) = Inr ()
   \<and> prefix
       (writes (fst (write_sources (example_env\<lparr>os_error := clash_os\<rparr>) clash_file (Path ''out'')
                       False False None None)))
       [(Join (Path ''out'') ''a'', ''x''), (Join (Path ''out'') ''a/b.sol'', ''y'')]
   \<and> write_sources (example_env\<lparr>os_error := clash_os\<rparr>) clash_file (Path ''out'')
         False False None None
       = ([Mkdir_parents (Join (Path ''out'') ''a''), Write_text (Join (Path ''out'') ''a'') ''x'',
           Print (Wrote (Join (Path ''out'') ''a''))], Inl (OSError ''FileExistsError''))"
proof -
  have a: "map_of multi_file ''SourceCode'' = Some example_bundle"
    by (simp add: multi_file_def)
  have p: "parse_source_code_object (loads example_env) example_bundle
     = Inr (PyDict [(''A.sol'', PyDict [(''content'', PyStr ''a'')]), ([], PyStr ''b'')])"
    by (simp add: example_env_def example_bundle_parsed)
  have t: "\<forall>(name, code)\<in>set [(PyStr ''A.sol'', PyStr ''a''), (PyStr [], PyStr ''b'')].
             (\<exists>s. code = PyStr s) \<and> (truthy name \<longrightarrow> (\<exists>s. name = PyStr s))"
    by simp
  have n: "str_nat (Suc (Suc 0)) = ''2''"
    by (simp add: str_nat.simps)
  have os: "accepted example_env ws" for ws
    by (induction ws) (auto simp add: accepted_def example_env_def)
  have first: "writes (fst (write_sources example_env multi_file (Path ''out'') False False None None))
     = [(Join (Path ''out'') ''A.sol'', ''a''), (Join (Path ''out'') ''Contract_2.sol'', ''b'')]
   \<and> snd (write_sources example_env multi_file (Path ''out'') False False None None) = Inr ()"
    using empty_names_become_numbered [OF a example_bundle_text(1) example_bundle_text(2) p
        example_bundle_map, of "Path ''out''" False False None None] t os
    by (simp add: side_writes_def n)
  have c: "map_of clash_file ''SourceCode'' = Some clash_bundle"
    by (simp add: clash_file_def)
  have q: "parse_source_code_object (loads (example_env\<lparr>os_error := clash_os\<rparr>)) clash_bundle
     = Inr (PyDict [(''a'', PyStr ''x''), (''a/b.sol'', PyStr ''y'')])"
    by (simp add: example_env_def clash_bundle_parsed)
  have second: "prefix
       (writes (fst (write_sources (example_env\<lparr>os_error := clash_os\<rparr>) clash_file (Path ''out'')
                       False False None None)))
       [(Join (Path ''out'') ''a'', ''x''), (Join (Path ''out'') ''a/b.sol'', ''y'')]"
    using empty_names_become_numbered [OF c clash_bundle_text(1) clash_bundle_text(2) q
        clash_bundle_map, of "Path ''out''" False False None None]
    by (simp add: side_writes_def)
  have get: "get_or clash_file ''SourceCode'' '''' = clash_bundle"
    by (simp add: clash_file_def get_or_def)
  have third: "write_sources (example_env\<lparr>os_error := clash_os\<rparr>) clash_file (Path ''out'')
         False False None None
       = ([Mkdir_parents (Join (Path ''out'') ''a''), Write_text (Join (Path ''out'') ''a'') ''x'',
           Print (Wrote (Join (Path ''out'') ''a''))], Inl (OSError ''FileExistsError''))"
    unfolding write_sources_def Let_def get
    using clash_bundle_text q
    by (simp add: clash_bundle_map write_file_def clash_os_def)
  from first second third show ?thesis
    by blast
qed

section \<open>Termination of the recursion\<close>

text \<open>
  Claim C1. On every finite proxy graph, cyclic or not, the recursive downloader
  terminates: if \<open>R\<close> is a finite set of addresses that contains the lower-cased start
  address and, with every address whose fetched record is a proxy record, the
  implementation it names, then every run with more fuel than there are unvisited
  addresses in \<open>R\<close> returns. The addresses it requests are pairwise distinct, none of
  them was visited before and all lie in \<open>R\<close>, so no address is fetched twice; the
  visited set only grows, stays within the old set and \<open>R\<close>, and contains the start
  address at the end; a call on an address already visited requests nothing and
  leaves the set as it was. The witness is the two-hop cycle A, B, A: exactly A and
  B are fetched and written, and the call for A made from B only prints the skip
  notice.
\<close>

theorem recursion_terminates_without_refetch:
  assumes fin: "finite R"
    and start: "lower address \<in> R"
    and closed: "\<forall>a\<in>R. \<forall>es r i. fetch_source E a chainid (apikey opts) = (es, Inr r)
                   \<longrightarrow> proxy_target r = Some i \<longrightarrow> i \<in> R"
    and seen: "V = (case visited of None \<Rightarrow> {} | Some s \<Rightarrow> s)"
    and fuel: "card (R - V) < n"
  shows "\<exists>es v r as.
           download_contract_source_recursive n E address chainid outdir opts visited
             = Some (es, v, r)
           \<and> http_gets es = map (\<lambda>a. api_url chainid a (apikey opts)) as
           \<and> distinct as \<and> set as \<subseteq> R - V
           \<and> V \<subseteq> v \<and> v \<subseteq> V \<union> R \<and> lower address \<in> v
           \<and> (lower address \<in> V \<longrightarrow> http_gets es = [] \<and> v = V)"
proof -
  have "download_contract_source_recursive n E address chainid outdir opts visited
          = download_contract_source_recursive n E address chainid outdir opts (Some V)"
    using seen by (cases visited) (simp_all add: download_recursive_None)
  then show ?thesis
    using download_recursive_returns [OF fin closed fuel start, of outdir] by simp
qed

theorem recursion_terminates_without_refetch_witness:
  "\<exists>es. download_contract_source_recursive (Suc (Suc (Suc 0))) example_env ''0xAA'' 1
            (Path ''out'') example_options None
          = Some (es, {''0xbb'', ''0xaa''}, Inr ())
        \<and> http_gets es = [api_url 1 ''0xaa'' ''KEY'', api_url 1 ''0xbb'' ''KEY'']
        \<and> distinct (http_gets es)
        \<and> writes es
            = [(Join (Join (Path ''out'') ''ProxyA-0xaa'') ''ProxyA.sol'', ''pragma solidity ^0.8.0;''),
               (Join (Join (Join (Join (Path ''out'') ''ProxyA-0xaa'') ''implementation-0xbb'')
                  ''LogicB-0xbb'') ''LogicB.sol'', ''// logic'')]
        \<and> last es = Print (Skipping ''0xaa'')"
proof -
  let ?R = "{''0xaa'', ''0xbb''}"
  have fin: "finite ?R"
    by simp
  have start: "lower ''0xAA'' \<in> ?R"
    by (simp add: lower_examples)
  have closed: "\<forall>a\<in>?R. \<forall>es r i.
                  fetch_source example_env a 1 (apikey example_options) = (es, Inr r)
                    \<longrightarrow> proxy_target r = Some i \<longrightarrow> i \<in> ?R"
    by (auto simp add: example_options_def fetch_examples proxy_target_examples)
  have seen: "{} = (case None :: string set option of None \<Rightarrow> {} | Some s \<Rightarrow> s)"
    by simp
  have fuel: "card (?R - {}) < Suc (Suc (Suc 0))"
    by simp
  from recursion_terminates_without_refetch [OF fin start closed seen fuel, of "Path ''out''"]
  obtain es v r as where
    run: "download_contract_source_recursive (Suc (Suc (Suc 0))) example_env ''0xAA'' 1
            (Path ''out'') example_options None = Some (es, v, r)"
    and gets: "http_gets es = map (\<lambda>a. api_url 1 a (apikey example_options)) as"
    and dist: "distinct as"
    by blast
  from dist gets have "distinct (http_gets es)"
    by (simp add: distinct_map inj_on_def)
  with run show ?thesis
    unfolding two_hop_run by (auto simp add: writes_def)
qed

section \<open>When the downloader recurses\<close>

text \<open>
  Claim C2, as the code has it. For every record fetched for an address not yet
  visited, and for which the source writer succeeds, the call recurses if and only if
  the \<open>Proxy\<close> field is \<open>1\<close> and the \<open>Implementation\<close> field is present, not empty and, in
  lower case, not the zero address; it then recurses into the lower-cased
  implementation with the visited set extended by the current address. In
  particular a proxy flag with a zero-address implementation causes no recursion.
  The last conjunct says the same of the function itself: a single call is not
  enough exactly when the condition holds.
\<close>

theorem recursion_iff_proxy_with_implementation:
  assumes new: "lower address \<notin> V"
    and fetched: "fetch_source E (lower address) chainid (apikey opts) = (es1, Inr result)"
    and written: "write_sources E result
                    (Join outdir (get_or result ''ContractName'' ''Contract'' @ ''-'' @ lower address))
                    (save_abi opts) (save_metadata opts)
                    (include_metadata_keys opts) (exclude_metadata_keys opts) = (es2, Inr ())"
  shows "((\<exists>es impl dir v.
             download_step E address chainid outdir opts (Some V) = Recurse es impl dir v)
          = (map_of result ''Proxy'' = Some ''1''
             \<and> (\<exists>i. map_of result ''Implementation'' = Some i \<and> i \<noteq> []
                    \<and> lower i \<noteq> ''0x0000000000000000000000000000000000000000'')))
         \<and> (case download_step E address chainid outdir opts (Some V) of
               Recurse es impl dir v \<Rightarrow>
                 impl = lower (get_or result ''Implementation'' [])
                 \<and> v = insert (lower address) V
                 \<and> es = Print (Downloading (lower address) chainid) # es1 @ es2
                          @ [Print (DetectedProxy impl)]
             | Return es v r \<Rightarrow>
                 r = Inr () \<and> v = insert (lower address) V
                 \<and> es = Print (Downloading (lower address) chainid) # es1 @ es2)
         \<and> ((download_contract_source_recursive (Suc 0) E address chainid outdir opts (Some V)
               = None)
            = (map_of result ''Proxy'' = Some ''1''
               \<and> (\<exists>i. map_of result ''Implementation'' = Some i \<and> i \<noteq> []
                      \<and> lower i \<noteq> ''0x0000000000000000000000000000000000000000'')))"
proof (cases "map_of result ''Proxy'' = Some ''1''
              \<and> (\<exists>i. map_of result ''Implementation'' = Some i \<and> i \<noteq> []
                     \<and> lower i \<noteq> ''0x0000000000000000000000000000000000000000'')")
  case True
  then obtain i where i: "map_of result ''Implementation'' = Some i" "i \<noteq> []"
      "lower i \<noteq> ''0x0000000000000000000000000000000000000000''"
      and p: "map_of result ''Proxy'' = Some ''1''"
    by blast
  have "download_step E address chainid outdir opts (Some V)
          = Recurse (Print (Downloading (lower address) chainid) # es1 @ es2
                       @ [Print (DetectedProxy (lower i))])
              (lower i)
              (Join (Join outdir (get_or result ''ContractName'' ''Contract'' @ ''-'' @ lower address))
                 (''implementation-'' @ lower i))
              (insert (lower address) V)"
    using new fetched written i p by (simp add: download_step_def Let_def get_or_def)
  with True i show ?thesis
    by (simp add: get_or_def)
next
  case False
  then have "\<not> (map_of result ''Proxy'' = Some ''1''
                \<and> lower (get_or result ''Implementation'' []) \<noteq> []
                \<and> lower (get_or result ''Implementation'' [])
                    \<noteq> ''0x0000000000000000000000000000000000000000'')"
    by (auto simp add: get_or_def split: option.splits)
  then have "download_step E address chainid outdir opts (Some V)
          = Return (Print (Downloading (lower address) chainid) # es1 @ es2)
              (insert (lower address) V) (Inr ())"
    using new fetched written by (auto simp add: download_step_def Let_def)
  with False show ?thesis
    by simp
qed

theorem recursion_iff_proxy_with_implementation_witness:
  "(\<exists>es impl dir v.
      download_step example_env ''0xAA'' 1 (Path ''out'') example_options (Some {})
        = Recurse es impl dir v)
   \<and> map_of proxy_a ''Proxy'' = Some ''1''
   \<and> map_of proxy_a ''Implementation'' = Some ''0xBB''
   \<and> download_contract_source_recursive (Suc 0) example_env ''0xAA'' 1 (Path ''out'')
        example_options (Some {}) = None
   \<and> map_of capital_zero_proxy ''Implementation''
        = Some ''0X0000000000000000000000000000000000000000''
   \<and> download_contract_source_recursive (Suc 0) example_env ''0xee'' 1 (Path ''out'')
        example_options (Some {}) \<noteq> None"
proof -
  have new: "lower ''0xAA'' \<notin> {}" "lower ''0xee'' \<notin> {}"
    by simp_all
  have fa: "fetch_source example_env (lower ''0xAA'') 1 (apikey example_options)
              = ([Http_get (api_url 1 ''0xaa'' ''KEY'')], Inr proxy_a)"
    by (simp add: lower_examples example_options_def fetch_examples)
  have wa: "write_sources example_env proxy_a
              (Join (Path ''out'') (get_or proxy_a ''ContractName'' ''Contract'' @ ''-'' @ lower ''0xAA''))
              (save_abi example_options) (save_metadata example_options)
              (include_metadata_keys example_options) (exclude_metadata_keys example_options)
            = ([Mkdir_parents (Join (Join (Path ''out'') ''ProxyA-0xaa'') ''ProxyA.sol''),
                Write_text (Join (Join (Path ''out'') ''ProxyA-0xaa'') ''ProxyA.sol'')
                  ''pragma solidity ^0.8.0;'',
                Print (Wrote (Join (Join (Path ''out'') ''ProxyA-0xaa'') ''ProxyA.sol''))], Inr ())"
    by (simp add: example_options_def write_examples)
      (simp add: get_or_def proxy_a_def lower_examples)
  have fe: "fetch_source example_env (lower ''0xee'') 1 (apikey example_options)
              = ([Http_get (api_url 1 ''0xee'' ''KEY'')], Inr capital_zero_proxy)"
    by (simp add: lower_examples example_options_def fetch_examples)
  have we: "write_sources example_env capital_zero_proxy
              (Join (Path ''out'')
                 (get_or capital_zero_proxy ''ContractName'' ''Contract'' @ ''-'' @ lower ''0xee''))
              (save_abi example_options) (save_metadata example_options)
              (include_metadata_keys example_options) (exclude_metadata_keys example_options)
            = ([Mkdir_parents (Join (Join (Path ''out'') ''Zero-0xee'') ''Zero.sol''),
                Write_text (Join (Join (Path ''out'') ''Zero-0xee'') ''Zero.sol'')
                  ''pragma solidity ^0.8.0;'',
                Print (Wrote (Join (Join (Path ''out'') ''Zero-0xee'') ''Zero.sol''))], Inr ())"
    by (simp add: example_options_def write_examples)
      (simp add: get_or_def capital_zero_proxy_def lower_examples)
  have pa: "map_of proxy_a ''Proxy'' = Some ''1''"
      "map_of proxy_a ''Implementation'' = Some ''0xBB''"
    by (simp_all add: proxy_a_def)
  have pe: "map_of capital_zero_proxy ''Proxy'' = Some ''1''"
      "map_of capital_zero_proxy ''Implementation''
         = Some ''0X0000000000000000000000000000000000000000''"
    by (simp_all add: capital_zero_proxy_def)
  show ?thesis
    using recursion_iff_proxy_with_implementation [OF new(1) fa wa]
      recursion_iff_proxy_with_implementation [OF new(2) fe we] pa pe
    by (simp add: lower_examples)
qed

text \<open>
  The claim as it was stated, for every record and on the fields alone, is false.
  A proxy record without verified source names a non-zero implementation, and the
  call ends with the "no source" error raised by the source writer, without
  recursing. A record whose implementation is the zero address written with a
  capital X differs from the zero-address string, and the call does not recurse
  either, because the comparison is made in lower case.
\<close>

theorem recursion_iff_proxy_fields_counterexample:
  "map_of unverified_proxy ''Proxy'' = Some ''1''
   \<and> map_of unverified_proxy ''Implementation'' = Some ''0xdd''
   \<and> ''0xdd'' \<noteq> ''0x0000000000000000000000000000000000000000''
   \<and> download_contract_source_recursive (Suc 0) example_env ''0xcc'' 1 (Path ''out'')
        example_options None
       = Some ([Print (Downloading ''0xcc'' 1), Http_get (api_url 1 ''0xcc'' ''KEY'')], {''0xcc''},
               Inl (RuntimeError ''Contract is not verified or has no source''))
   \<and> map_of capital_zero_proxy ''Proxy'' = Some ''1''
   \<and> map_of capital_zero_proxy ''Implementation''
       = Some ''0X0000000000000000000000000000000000000000''
   \<and> ''0X0000000000000000000000000000000000000000''
       \<noteq> ''0x0000000000000000000000000000000000000000''
   \<and> download_contract_source_recursive (Suc 0) example_env ''0xee'' 1 (Path ''out'')
        example_options None
       = Some ([Print (Downloading ''0xee'' 1), Http_get (api_url 1 ''0xee'' ''KEY''),
                Mkdir_parents (Join (Join (Path ''out'') ''Zero-0xee'') ''Zero.sol''),
                Write_text (Join (Join (Path ''out'') ''Zero-0xee'') ''Zero.sol'')
                  ''pragma solidity ^0.8.0;'',
                Print (Wrote (Join (Join (Path ''out'') ''Zero-0xee'') ''Zero.sol''))],
               {''0xee''}, Inr ())"
  by (simp add: step_examples) (simp add: unverified_proxy_def capital_zero_proxy_def)


end
